theory Spec2Isabelle
  imports Complex_Main "HOL-Library.Multiset"
begin

section \<open>Best-execution price selection (triumph-project)\<close>

text \<open>
  The repository quotes a price for buying or selling a symbol: the order service asks every
  exchange for its (ask, bid) pair, skips the exchanges that fail, and keeps the best price
  together with the names of the exchanges that offer it. The HTTP controller in front of it
  parses the \<open>amount\<close> and \<open>symbol\<close> query parameters.
\<close>

subsection \<open>Go \<open>float64\<close> values\<close>

text \<open>
  A \<open>float64\<close> is NaN, an infinity or a finite number; the finite ones are embedded in the
  reals. The two zeros of the machine format compare equal in Go and are one value
  \<open>Fin 0\<close> here. \<open>flt\<close> and \<open>feq\<close> are Go's \<open><\<close> and \<open>==\<close>: every comparison with NaN is
  false. \<open>fmul\<close> is Go's \<open>*\<close> with the special cases of the format; on two finite operands
  it is the exact product (the rounding of the machine product to 53 bits and its overflow
  are not modelled, so it agrees with Go wherever the exact product is a \<open>float64\<close>).
\<close>

datatype float64 = NaN | NInf | Fin real | PInf

fun flt :: "float64 \<Rightarrow> float64 \<Rightarrow> bool" where
  "flt NaN _ = False"
| "flt _ NaN = False"
| "flt _ NInf = False"
| "flt NInf _ = True"
| "flt PInf _ = False"
| "flt (Fin a) PInf = True"
| "flt (Fin a) (Fin b) = (a < b)"

definition fgt :: "float64 \<Rightarrow> float64 \<Rightarrow> bool" where
  "fgt a b = flt b a"

definition feq :: "float64 \<Rightarrow> float64 \<Rightarrow> bool" where
  "feq a b = (a \<noteq> NaN \<and> b \<noteq> NaN \<and> a = b)"

fun fsign :: "float64 \<Rightarrow> int" where
  "fsign NaN = 0"
| "fsign NInf = - 1"
| "fsign PInf = 1"
| "fsign (Fin a) = (if a < 0 then - 1 else if a = 0 then 0 else 1)"

fun fmul :: "float64 \<Rightarrow> float64 \<Rightarrow> float64" where
  "fmul (Fin a) (Fin b) = Fin (a * b)"
| "fmul a b =
     (if a = NaN \<or> b = NaN \<or> fsign a * fsign b = 0 then NaN
      else if fsign a * fsign b < 0 then NInf else PInf)"

text \<open>The literal \<open>1e18\<close> of \<open>Buy\<close> and the literal \<open>0.0\<close> of \<open>Sell\<close>.\<close>

definition f1e18 :: float64 where
  "f1e18 = Fin 1000000000000000000"

definition f0 :: float64 where
  "f0 = Fin 0"

subsection \<open>The \<open>Exchange\<close> interface\<close>

text \<open>
  An exchange has the two methods of the Go interface. \<open>GetPrices\<close> returns Go's triple
  (buy price, sell price, error), the error being \<open>None\<close> for \<open>nil\<close>. The network call
  behind it is made once for each exchange in a request, so within one request it is a
  function of the symbol; the context argument (deadline and cancellation) is left out.
  A call that panics returns no triple and is outside this type.
\<close>

record exchange =
  GetName :: string
  GetPrices :: "string \<Rightarrow> float64 \<times> float64 \<times> string option"

text \<open>The \<open>MockExchange\<close> of the repository's tests: fixed prices and a fixed error.\<close>

definition MockExchange :: "string \<Rightarrow> float64 \<Rightarrow> float64 \<Rightarrow> string option \<Rightarrow> exchange" where
  "MockExchange n buyPrice sellPrice e =
     \<lparr>GetName = n, GetPrices = (\<lambda>symbol. (buyPrice, sellPrice, e))\<rparr>"

text \<open>What one exchange answers for a symbol: whether the call succeeded, its ask, its bid.\<close>

definition succeeded :: "exchange \<Rightarrow> string \<Rightarrow> bool" where
  "succeeded e symbol = (snd (snd (GetPrices e symbol)) = None)"

definition ask_of :: "exchange \<Rightarrow> string \<Rightarrow> float64" where
  "ask_of e symbol = fst (GetPrices e symbol)"

definition bid_of :: "exchange \<Rightarrow> string \<Rightarrow> float64" where
  "bid_of e symbol = fst (snd (GetPrices e symbol))"

subsection \<open>\<open>OrderService.Buy\<close> and \<open>OrderService.Sell\<close>\<close>

text \<open>
  The \<open>for ... range o.exchanges\<close> loop of \<open>Buy\<close>, with its two variables \<open>bestPrice\<close> and
  \<open>bestExchanges\<close> as the state. A failed call is logged and skipped (the log line is not
  part of the model).
\<close>

fun buy_loop :: "exchange list \<Rightarrow> string \<Rightarrow> float64 \<times> string list \<Rightarrow> float64 \<times> string list" where
  "buy_loop [] symbol st = st"
| "buy_loop (e # es) symbol (bestPrice, bestExchanges) =
     (case GetPrices e symbol of (price, _, err) \<Rightarrow>
        if err \<noteq> None then buy_loop es symbol (bestPrice, bestExchanges)
        else if flt price bestPrice then buy_loop es symbol (price, [GetName e])
        else if feq price bestPrice then
          buy_loop es symbol (bestPrice, bestExchanges @ [GetName e])
        else buy_loop es symbol (bestPrice, bestExchanges))"

text \<open>
  The result is Go's triple (amount, winners, error); \<open>None\<close> is the \<open>nil\<close> slice and the
  \<open>nil\<close> error.
\<close>

type_synonym order_result = "float64 \<times> string list option \<times> string option"

definition Buy :: "exchange list \<Rightarrow> float64 \<Rightarrow> string \<Rightarrow> order_result" where
  "Buy exchanges amount symbol =
     (case buy_loop exchanges symbol (f1e18, []) of (bestPrice, bestExchanges) \<Rightarrow>
        if feq bestPrice f1e18
        then (Fin 0, None, Some (''failed to find best price for '' @ symbol))
        else (fmul amount bestPrice, Some bestExchanges, None))"

fun sell_loop :: "exchange list \<Rightarrow> string \<Rightarrow> float64 \<times> string list \<Rightarrow> float64 \<times> string list" where
  "sell_loop [] symbol st = st"
| "sell_loop (e # es) symbol (bestPrice, bestExchanges) =
     (case GetPrices e symbol of (_, price, err) \<Rightarrow>
        if err \<noteq> None then sell_loop es symbol (bestPrice, bestExchanges)
        else if fgt price bestPrice then sell_loop es symbol (price, [GetName e])
        else if feq price bestPrice then
          sell_loop es symbol (bestPrice, bestExchanges @ [GetName e])
        else sell_loop es symbol (bestPrice, bestExchanges))"

definition Sell :: "exchange list \<Rightarrow> float64 \<Rightarrow> string \<Rightarrow> order_result" where
  "Sell exchanges amount symbol =
     (case sell_loop exchanges symbol (f0, []) of (bestPrice, bestExchanges) \<Rightarrow>
        if feq bestPrice f0
        then (Fin 0, None, Some (''failed to find best price for '' @ symbol))
        else (fmul amount bestPrice, Some bestExchanges, None))"

subsection \<open>The two exchange adapters\<close>

text \<open>
  A decoded JSON value of Go's type \<open>any\<close>, and the two fields both adapters decode from
  an order book: \<open>Bids\<close> and \<open>Asks\<close>, each of Go type \<open>[][]any\<close>. The struct that
  \<open>CoinbaseExchange.GetPrices\<close> decodes and the \<open>ResultBlock\<close> of
  \<open>KrakenExchange.GetPrices\<close> have exactly these two fields.
\<close>

datatype any =
    ANull
  | ABool bool
  | ANumber float64
  | AString string
  | AArray "any list"
  | AObject "(string \<times> any) list"

record ResultBlock =
  Asks :: "any list list"
  Bids :: "any list list"

text \<open>
  The \<open>krakenResponse\<close> struct. Its \<open>Result\<close> is a Go map; the list holds its entries in
  the order in which the \<open>range\<close> loop of one call visits them.
\<close>

record krakenResponse =
  Error :: "string list"
  Result :: "(string \<times> ResultBlock) list"

text \<open>
  What the HTTP part of a call hands to the parsing part: the error of
  \<open>http.NewRequestWithContext\<close>, of \<open>client.Do\<close> or of the JSON decoder, or the decoded
  response.
\<close>

datatype 'r fetched =
    RequestError string
  | DoError string
  | DecodeError string
  | Decoded 'r

text \<open>
  A call either returns Go's triple or panics: the type assertion \<open>.(string)\<close> panics on a
  value that is not a string.
\<close>

datatype 'a go = Panics | Returns 'a

type_synonym prices = "float64 \<times> float64 \<times> string option"

text \<open>
  \<open>strconv.ParseFloat\<close> belongs to Go's library, not to the repository: it is the
  parameter \<open>pf\<close>, giving Go's pair (value, error) for a text.
\<close>

type_synonym parse_float = "string \<Rightarrow> float64 \<times> string option"

fun Join :: "string list \<Rightarrow> string \<Rightarrow> string" where
  "Join [] sep = []"
| "Join [x] sep = x"
| "Join (x # y # ys) sep = x @ sep @ Join (y # ys) sep"

definition CoinbaseExchange_GetPrices :: "parse_float \<Rightarrow> ResultBlock fetched \<Rightarrow> prices go" where
  "CoinbaseExchange_GetPrices pf http =
     (case http of
        RequestError m \<Rightarrow> Returns (Fin 0, Fin 0, Some (''failed to create request: '' @ m))
      | DoError m \<Rightarrow> Returns (Fin 0, Fin 0, Some (''failed to get price from coinbase: '' @ m))
      | DecodeError m \<Rightarrow>
          Returns (Fin 0, Fin 0, Some (''failed to decode coinbase response: '' @ m))
      | Decoded coinbaseResponse \<Rightarrow>
          if length (Bids coinbaseResponse) = 0 \<or> length (Bids coinbaseResponse ! 0) = 0
          then Returns (Fin 0, Fin 0, Some ''Failed to find bid prices in coinbase response'')
          else if length (Asks coinbaseResponse) = 0 \<or> length (Asks coinbaseResponse ! 0) = 0
          then Returns (Fin 0, Fin 0, Some ''Failed to find ask prices in coinbase response'')
          else (case Bids coinbaseResponse ! 0 ! 0 of
                  AString bidText \<Rightarrow>
                    (case pf bidText of
                       (_, Some m) \<Rightarrow>
                         Returns (Fin 0, Fin 0, Some
                           (''failed to parse bid price string from coinbase response: '' @ m))
                     | (bid, None) \<Rightarrow>
                         (case Asks coinbaseResponse ! 0 ! 0 of
                            AString askText \<Rightarrow>
                              (case pf askText of
                                 (_, Some m) \<Rightarrow>
                                   Returns (Fin 0, Fin 0, Some
                                     (''failed to parse ask price string from coinbase response: ''
                                       @ m))
                               | (ask, None) \<Rightarrow> Returns (ask, bid, None))
                          | _ \<Rightarrow> Panics))
                | _ \<Rightarrow> Panics))"

text \<open>
  The \<open>for _, aResult := range krakenResponse.Result\<close> loop, with the variables \<open>ask\<close> and
  \<open>bid\<close> declared before it as the state; after the last entry the function returns
  \<open>ask, bid, nil\<close>.
\<close>

fun kraken_loop :: "parse_float \<Rightarrow> (string \<times> ResultBlock) list \<Rightarrow> float64 \<times> float64 \<Rightarrow> prices go" where
  "kraken_loop pf [] (ask, bid) = Returns (ask, bid, None)"
| "kraken_loop pf ((key, aResult) # rest) (ask, bid) =
     (if length (Bids aResult) = 0 \<or> length (Bids aResult ! 0) = 0
      then Returns (Fin 0, Fin 0, Some ''Failed to find bid prices in kraken response'')
      else if length (Asks aResult) = 0 \<or> length (Asks aResult ! 0) = 0
      then Returns (Fin 0, Fin 0, Some ''Failed to find ask prices in kraken response'')
      else (case Bids aResult ! 0 ! 0 of
              AString bidText \<Rightarrow>
                (case pf bidText of
                   (_, Some m) \<Rightarrow>
                     Returns (Fin 0, Fin 0, Some
                       (''failed to parse bid price string from kraken response: '' @ m))
                 | (bid', None) \<Rightarrow>
                     (case Asks aResult ! 0 ! 0 of
                        AString askText \<Rightarrow>
                          (case pf askText of
                             (_, Some m) \<Rightarrow>
                               Returns (Fin 0, Fin 0, Some
                                 (''failed to parse ask price string from kraken response: '' @ m))
                           | (ask', None) \<Rightarrow> kraken_loop pf rest (ask', bid'))
                      | _ \<Rightarrow> Panics))
            | _ \<Rightarrow> Panics))"

definition KrakenExchange_GetPrices :: "parse_float \<Rightarrow> krakenResponse fetched \<Rightarrow> prices go" where
  "KrakenExchange_GetPrices pf http =
     (case http of
        RequestError m \<Rightarrow> Returns (Fin 0, Fin 0, Some (''failed to create request: '' @ m))
      | DoError m \<Rightarrow> Returns (Fin 0, Fin 0, Some (''failed to get price from kraken: '' @ m))
      | DecodeError m \<Rightarrow>
          Returns (Fin 0, Fin 0, Some (''failed to decode kraken response: '' @ m))
      | Decoded krakenResponse \<Rightarrow>
          if length (Error krakenResponse) \<noteq> 0
          then Returns (Fin 0, Fin 0, Some
                 (''Kraken price fetch failed with errors: '' @ Join (Error krakenResponse) '', ''))
          else kraken_loop pf (Result krakenResponse) (Fin 0, Fin 0))"

subsection \<open>The order controller\<close>

text \<open>
  The handlers use two methods of fiber's request context, \<open>QueryFloat\<close> and \<open>Query\<close>;
  they are the two fields of \<open>Ctx\<close>. fiber is a library the repository imports, so what the
  two methods do with a query string is not the repository's code: \<open>fiber_Ctx\<close> builds the
  context of a request from its query arguments the way fiber v2 documents them.
  \<open>Query\<close> gives the value of a key, the empty text when the key is missing;
  \<open>QueryFloat\<close> parses that text with \<open>strconv.ParseFloat\<close> and gives the default value
  when the parse reports an error.
\<close>

record Ctx =
  QueryFloat :: "string \<Rightarrow> float64 \<Rightarrow> float64"
  Query :: "string \<Rightarrow> string"

definition query_text :: "(string \<rightharpoonup> string) \<Rightarrow> string \<Rightarrow> string" where
  "query_text args key = (case args key of None \<Rightarrow> [] | Some v \<Rightarrow> v)"

definition fiber_Ctx :: "parse_float \<Rightarrow> (string \<rightharpoonup> string) \<Rightarrow> Ctx" where
  "fiber_Ctx pf args =
     \<lparr>QueryFloat = (\<lambda>key defaultValue.
         case pf (query_text args key) of
           (_, Some m) \<Rightarrow> defaultValue
         | (v, None) \<Rightarrow> v),
      Query = query_text args\<rparr>"

text \<open>
  A handler ends by handing a status and a \<open>fiber.Map\<close> to the context's \<open>JSON\<close>; that
  pair is its result (the status is 200, fiber's default, where the code sets none). The
  map is written as the list of its entries, a \<open>nil\<close> slice of
  exchanges being \<open>ANull\<close>. The controller's only field is the order service, whose only
  field is the list of exchanges.
\<close>

type_synonym response = "nat \<times> (string \<times> any) list"

definition exchanges_value :: "string list option \<Rightarrow> any" where
  "exchanges_value ws = (case ws of None \<Rightarrow> ANull | Some names \<Rightarrow> AArray (map AString names))"

definition BuyHandler :: "exchange list \<Rightarrow> Ctx \<Rightarrow> response" where
  "BuyHandler orderService c =
     (let amount = QueryFloat c ''amount'' (Fin 0) in
      if feq amount (Fin 0) then (400, [(''error'', AString ''invalid amount'')])
      else
        let symbol = Query c ''symbol'' in
        (case Buy orderService amount symbol of
           (usdAmount, exchanges, Some m) \<Rightarrow> (500, [(''error'', AString m)])
         | (usdAmount, exchanges, None) \<Rightarrow>
             (200, [(''coin'', AString symbol),
                    (''amount'', ANumber amount),
                    (''usdAmount'', ANumber usdAmount),
                    (''exchange'', exchanges_value exchanges)])))"

definition SellHandler :: "exchange list \<Rightarrow> Ctx \<Rightarrow> response" where
  "SellHandler orderService c =
     (let amount = QueryFloat c ''amount'' (Fin 0) in
      if feq amount (Fin 0) then (400, [(''error'', AString ''invalid amount'')])
      else
        let symbol = Query c ''symbol'' in
        (case Sell orderService amount symbol of
           (usdAmount, exchanges, Some m) \<Rightarrow> (500, [(''error'', AString m)])
         | (usdAmount, exchanges, None) \<Rightarrow>
             (200, [(''coin'', AString symbol),
                    (''amount'', ANumber amount),
                    (''usdAmount'', ANumber usdAmount),
                    (''exchange'', exchanges_value exchanges)])))"

subsection \<open>Notions used in the statements\<close>

text \<open>
  The names of the successful exchanges whose price (ask or bid) equals \<open>m\<close> under Go's
  \<open>==\<close>, in the order of the list; the least ask and the greatest bid among the successful
  exchanges (a NaN price is below and above nothing, and is never the least or greatest);
  and the triple both functions return when they find no price.
\<close>

definition winners_at :: "(exchange \<Rightarrow> string \<Rightarrow> float64) \<Rightarrow> exchange list \<Rightarrow> string \<Rightarrow> float64 \<Rightarrow> string list" where
  "winners_at price exs symbol m =
     map GetName (filter (\<lambda>e. succeeded e symbol \<and> feq (price e symbol) m) exs)"

definition min_ask :: "exchange list \<Rightarrow> string \<Rightarrow> float64 \<Rightarrow> bool" where
  "min_ask exs symbol m =
     (m \<noteq> NaN \<and> (\<exists>e\<in>set exs. succeeded e symbol \<and> ask_of e symbol = m) \<and>
      (\<forall>e\<in>set exs. succeeded e symbol \<longrightarrow> \<not> flt (ask_of e symbol) m))"

definition max_bid :: "exchange list \<Rightarrow> string \<Rightarrow> float64 \<Rightarrow> bool" where
  "max_bid exs symbol m =
     (m \<noteq> NaN \<and> (\<exists>e\<in>set exs. succeeded e symbol \<and> bid_of e symbol = m) \<and>
      (\<forall>e\<in>set exs. succeeded e symbol \<longrightarrow> \<not> flt m (bid_of e symbol)))"

definition no_price :: "string \<Rightarrow> order_result" where
  "no_price symbol = (Fin 0, None, Some (''failed to find best price for '' @ symbol))"

text \<open>
  The response a handler builds from the result of the order service, by the code after the
  call that \<open>BuyHandler\<close> and \<open>SellHandler\<close> share word for word.
\<close>

definition order_response :: "string \<Rightarrow> float64 \<Rightarrow> order_result \<Rightarrow> response" where
  "order_response symbol amount r =
     (case r of
        (usdAmount, exchanges, Some m) \<Rightarrow> (500, [(''error'', AString m)])
      | (usdAmount, exchanges, None) \<Rightarrow>
          (200, [(''coin'', AString symbol),
                 (''amount'', ANumber amount),
                 (''usdAmount'', ANumber usdAmount),
                 (''exchange'', exchanges_value exchanges)]))"

definition invalid_amount :: response where
  "invalid_amount = (400, [(''error'', AString ''invalid amount'')])"

text \<open>
  For the concrete requests below: what \<open>strconv.ParseFloat\<close> returns on the texts
  \<open>1\<close>, \<open>0.5\<close>, \<open>-1\<close> and \<open>0\<close>, and a syntax error on the other texts used (the empty
  text, \<open>junk\<close> and \<open>invalid\<close>).
\<close>

definition parse_sample :: parse_float where
  "parse_sample s =
     (if s = ''1'' then (Fin 1, None)
      else if s = ''0.5'' then (Fin 0.5, None)
      else if s = ''-1'' then (Fin (- 1), None)
      else if s = ''0'' then (Fin 0, None)
      else (Fin 0, Some ''invalid syntax''))"

section \<open>Properties\<close>

subsection \<open>The order of \<open>float64\<close>\<close>

lemma flt_irrefl: "\<not> flt a a"
  by (cases a) auto

lemma flt_trans: "flt a b \<Longrightarrow> flt b c \<Longrightarrow> flt a c"
  by (cases a; cases b; cases c) auto

lemma flt_total: "a \<noteq> NaN \<Longrightarrow> b \<noteq> NaN \<Longrightarrow> flt a b \<or> a = b \<or> flt b a"
  by (cases a; cases b) auto

lemma flt_not_NaN: "flt a b \<Longrightarrow> a \<noteq> NaN \<and> b \<noteq> NaN"
  by (cases a; cases b) auto

lemma flt_less_le: "flt a c \<Longrightarrow> \<not> flt b c \<Longrightarrow> b \<noteq> NaN \<Longrightarrow> flt a b"
  by (cases a; cases b; cases c) auto

subsection \<open>What the loop of \<open>Buy\<close> computes\<close>

text \<open>
  From a best price that is not NaN the loop ends with a best price that is not NaN, is not
  above the starting one, is not above any ask of a successful exchange, and is the starting
  price or one of those asks; the winners are the names of the successful exchanges whose
  ask equals it, in the order of the list (after the starting winners when the best price
  never changed).
\<close>

lemma buy_loop_step:
  "buy_loop (e # es) symbol (b, ws) =
     (if \<not> succeeded e symbol then buy_loop es symbol (b, ws)
      else if flt (ask_of e symbol) b then buy_loop es symbol (ask_of e symbol, [GetName e])
      else if feq (ask_of e symbol) b then buy_loop es symbol (b, ws @ [GetName e])
      else buy_loop es symbol (b, ws))"
  by (simp add: succeeded_def ask_of_def split: prod.splits)

lemma buy_loop_not_NaN:
  "b \<noteq> NaN \<Longrightarrow> fst (buy_loop es symbol (b, ws)) \<noteq> NaN"
proof (induction es arbitrary: b ws)
  case Nil
  then show ?case by simp
next
  case (Cons e es)
  then show ?case
    by (auto simp: buy_loop_step simp del: buy_loop.simps dest: flt_not_NaN)
qed

lemma buy_loop_lower:
  "b \<noteq> NaN \<Longrightarrow> \<not> flt b (fst (buy_loop es symbol (b, ws)))"
proof (induction es arbitrary: b ws)
  case Nil
  then show ?case by (simp add: flt_irrefl)
next
  case (Cons e es)
  show ?case
  proof (cases "succeeded e symbol \<and> flt (ask_of e symbol) b")
    case True
    then have "ask_of e symbol \<noteq> NaN" by (auto dest: flt_not_NaN)
    from Cons.IH[OF this] True show ?thesis
      by (auto simp: buy_loop_step simp del: buy_loop.simps dest: flt_trans)
  next
    case False
    with Cons.IH[OF Cons.prems] show ?thesis
      by (auto simp: buy_loop_step simp del: buy_loop.simps)
  qed
qed

lemma buy_loop_least:
  "b \<noteq> NaN \<Longrightarrow> e \<in> set es \<Longrightarrow> succeeded e symbol \<Longrightarrow>
   \<not> flt (ask_of e symbol) (fst (buy_loop es symbol (b, ws)))"
proof (induction es arbitrary: b ws)
  case Nil
  then show ?case by simp
next
  case (Cons x es)
  have nn: "flt (ask_of x symbol) b \<Longrightarrow> ask_of x symbol \<noteq> NaN"
    by (auto dest: flt_not_NaN)
  show ?case
  proof (cases "e = x")
    case True
    show ?thesis
    proof (cases "flt (ask_of x symbol) b")
      case t: True
      with Cons.prems True buy_loop_lower[OF nn[OF t], of es symbol "[GetName x]"]
      show ?thesis
        by (simp add: buy_loop_step del: buy_loop.simps)
    next
      case f: False
      have "\<not> flt b (fst (buy_loop es symbol (b, ws')))" for ws'
        using buy_loop_lower[OF Cons.prems(1)] by simp
      with f True Cons.prems show ?thesis
        by (auto simp: buy_loop_step simp del: buy_loop.simps dest: flt_less_le)
    qed
  next
    case False
    with Cons.prems have "e \<in> set es" by simp
    with Cons.IH Cons.prems nn show ?thesis
      by (auto simp: buy_loop_step simp del: buy_loop.simps)
  qed
qed

lemma buy_loop_attained:
  "fst (buy_loop es symbol (b, ws)) = b \<or>
   (\<exists>e\<in>set es. succeeded e symbol \<and> ask_of e symbol = fst (buy_loop es symbol (b, ws)))"
proof (induction es arbitrary: b ws)
  case Nil
  then show ?case by simp
next
  case (Cons x es)
  show ?case
    using Cons.IH[of b ws] Cons.IH[of "ask_of x symbol" "[GetName x]"]
      Cons.IH[of b "ws @ [GetName x]"]
    by (auto simp: buy_loop_step simp del: buy_loop.simps)
qed

lemma buy_loop_winners:
  "b \<noteq> NaN \<Longrightarrow>
   snd (buy_loop es symbol (b, ws)) =
     (if fst (buy_loop es symbol (b, ws)) = b then ws else []) @
     map GetName (filter (\<lambda>e. succeeded e symbol \<and>
        feq (ask_of e symbol) (fst (buy_loop es symbol (b, ws)))) es)"
proof (induction es arbitrary: b ws)
  case Nil
  then show ?case by simp
next
  case (Cons x es)
  let ?a = "ask_of x symbol"
  show ?case
  proof (cases "succeeded x symbol")
    case False
    with Cons.IH[OF Cons.prems, of ws] show ?thesis
      by (simp add: buy_loop_step del: buy_loop.simps)
  next
    case ok: True
    show ?thesis
    proof (cases "flt ?a b")
      case True
      then have nn: "?a \<noteq> NaN" by (auto dest: flt_not_NaN)
      have low: "\<not> flt ?a (fst (buy_loop es symbol (?a, [GetName x])))"
        by (rule buy_loop_lower[OF nn])
      have ne: "fst (buy_loop es symbol (?a, [GetName x])) \<noteq> b"
        using low True by auto
      from Cons.IH[OF nn, of "[GetName x]"] ok True ne nn show ?thesis
        by (auto simp add: buy_loop_step feq_def simp del: buy_loop.simps)
    next
      case nlt: False
      show ?thesis
      proof (cases "feq ?a b")
        case True
        then have eq: "?a = b" by (simp add: feq_def)
        from Cons.IH[OF Cons.prems, of "ws @ [GetName x]"] ok nlt True eq Cons.prems
          buy_loop_not_NaN[OF Cons.prems, of es symbol "ws @ [GetName x]"]
        show ?thesis
          by (auto simp add: buy_loop_step feq_def simp del: buy_loop.simps)
      next
        case False
        have low: "\<not> flt b (fst (buy_loop es symbol (b, ws)))"
          by (rule buy_loop_lower[OF Cons.prems])
        have "\<not> feq ?a (fst (buy_loop es symbol (b, ws)))"
        proof
          assume h: "feq ?a (fst (buy_loop es symbol (b, ws)))"
          then have "?a \<noteq> NaN" and e: "?a = fst (buy_loop es symbol (b, ws))"
            by (simp_all add: feq_def)
          with flt_total[OF this(1) Cons.prems] nlt False have "flt b ?a"
            by (auto simp: feq_def)
          with low e show False by simp
        qed
        with Cons.IH[OF Cons.prems, of ws] ok nlt False show ?thesis
          by (simp add: buy_loop_step del: buy_loop.simps)
      qed
    qed
  qed
qed


subsection \<open>What the loop of \<open>Sell\<close> computes\<close>

lemma flt_le_less: "flt c a \<Longrightarrow> \<not> flt c b \<Longrightarrow> b \<noteq> NaN \<Longrightarrow> flt b a"
  by (cases a; cases b; cases c) auto

lemma sell_loop_step:
  "sell_loop (e # es) symbol (b, ws) =
     (if \<not> succeeded e symbol then sell_loop es symbol (b, ws)
      else if flt b (bid_of e symbol) then sell_loop es symbol (bid_of e symbol, [GetName e])
      else if feq (bid_of e symbol) b then sell_loop es symbol (b, ws @ [GetName e])
      else sell_loop es symbol (b, ws))"
  by (simp add: succeeded_def bid_of_def fgt_def split: prod.splits)

lemma sell_loop_not_NaN:
  "b \<noteq> NaN \<Longrightarrow> fst (sell_loop es symbol (b, ws)) \<noteq> NaN"
proof (induction es arbitrary: b ws)
  case Nil
  then show ?case by simp
next
  case (Cons e es)
  then show ?case
    by (auto simp: sell_loop_step simp del: sell_loop.simps dest: flt_not_NaN)
qed

lemma sell_loop_upper:
  "b \<noteq> NaN \<Longrightarrow> \<not> flt (fst (sell_loop es symbol (b, ws))) b"
proof (induction es arbitrary: b ws)
  case Nil
  then show ?case by (simp add: flt_irrefl)
next
  case (Cons e es)
  show ?case
  proof (cases "succeeded e symbol \<and> flt b (bid_of e symbol)")
    case True
    then have "bid_of e symbol \<noteq> NaN" by (auto dest: flt_not_NaN)
    from Cons.IH[OF this] True show ?thesis
      by (auto simp: sell_loop_step simp del: sell_loop.simps dest: flt_trans)
  next
    case False
    with Cons.IH[OF Cons.prems] show ?thesis
      by (auto simp: sell_loop_step simp del: sell_loop.simps)
  qed
qed

lemma sell_loop_greatest:
  "b \<noteq> NaN \<Longrightarrow> e \<in> set es \<Longrightarrow> succeeded e symbol \<Longrightarrow>
   \<not> flt (fst (sell_loop es symbol (b, ws))) (bid_of e symbol)"
proof (induction es arbitrary: b ws)
  case Nil
  then show ?case by simp
next
  case (Cons x es)
  have nn: "flt b (bid_of x symbol) \<Longrightarrow> bid_of x symbol \<noteq> NaN"
    by (auto dest: flt_not_NaN)
  show ?case
  proof (cases "e = x")
    case True
    show ?thesis
    proof (cases "flt b (bid_of x symbol)")
      case t: True
      with Cons.prems True sell_loop_upper[OF nn[OF t], of es symbol "[GetName x]"]
      show ?thesis
        by (simp add: sell_loop_step del: sell_loop.simps)
    next
      case f: False
      have "\<not> flt (fst (sell_loop es symbol (b, ws'))) b" for ws'
        using sell_loop_upper[OF Cons.prems(1)] by simp
      with f True Cons.prems show ?thesis
        by (auto simp: sell_loop_step simp del: sell_loop.simps dest: flt_le_less)
    qed
  next
    case False
    with Cons.prems have "e \<in> set es" by simp
    with Cons.IH Cons.prems nn show ?thesis
      by (auto simp: sell_loop_step simp del: sell_loop.simps)
  qed
qed

lemma sell_loop_attained:
  "fst (sell_loop es symbol (b, ws)) = b \<or>
   (\<exists>e\<in>set es. succeeded e symbol \<and> bid_of e symbol = fst (sell_loop es symbol (b, ws)))"
proof (induction es arbitrary: b ws)
  case Nil
  then show ?case by simp
next
  case (Cons x es)
  show ?case
    using Cons.IH[of b ws] Cons.IH[of "bid_of x symbol" "[GetName x]"]
      Cons.IH[of b "ws @ [GetName x]"]
    by (auto simp: sell_loop_step simp del: sell_loop.simps)
qed

lemma sell_loop_winners:
  "b \<noteq> NaN \<Longrightarrow>
   snd (sell_loop es symbol (b, ws)) =
     (if fst (sell_loop es symbol (b, ws)) = b then ws else []) @
     map GetName (filter (\<lambda>e. succeeded e symbol \<and>
        feq (bid_of e symbol) (fst (sell_loop es symbol (b, ws)))) es)"
proof (induction es arbitrary: b ws)
  case Nil
  then show ?case by simp
next
  case (Cons x es)
  let ?p = "bid_of x symbol"
  show ?case
  proof (cases "succeeded x symbol")
    case False
    with Cons.IH[OF Cons.prems, of ws] show ?thesis
      by (simp add: sell_loop_step del: sell_loop.simps)
  next
    case ok: True
    show ?thesis
    proof (cases "flt b ?p")
      case True
      then have nn: "?p \<noteq> NaN" by (auto dest: flt_not_NaN)
      have up: "\<not> flt (fst (sell_loop es symbol (?p, [GetName x]))) ?p"
        by (rule sell_loop_upper[OF nn])
      have ne: "fst (sell_loop es symbol (?p, [GetName x])) \<noteq> b"
        using up True by auto
      from Cons.IH[OF nn, of "[GetName x]"] ok True ne nn show ?thesis
        by (auto simp add: sell_loop_step feq_def simp del: sell_loop.simps)
    next
      case ngt: False
      show ?thesis
      proof (cases "feq ?p b")
        case True
        then have eq: "?p = b" by (simp add: feq_def)
        from Cons.IH[OF Cons.prems, of "ws @ [GetName x]"] ok ngt True eq Cons.prems
          sell_loop_not_NaN[OF Cons.prems, of es symbol "ws @ [GetName x]"]
        show ?thesis
          by (auto simp add: sell_loop_step feq_def simp del: sell_loop.simps)
      next
        case False
        have up: "\<not> flt (fst (sell_loop es symbol (b, ws))) b"
          by (rule sell_loop_upper[OF Cons.prems])
        have "\<not> feq ?p (fst (sell_loop es symbol (b, ws)))"
        proof
          assume h: "feq ?p (fst (sell_loop es symbol (b, ws)))"
          then have "?p \<noteq> NaN" and e: "?p = fst (sell_loop es symbol (b, ws))"
            by (simp_all add: feq_def)
          with flt_total[OF this(1) Cons.prems] ngt False have "flt ?p b"
            by (auto simp: feq_def)
          with up e show False by simp
        qed
        with Cons.IH[OF Cons.prems, of ws] ok ngt False show ?thesis
          by (simp add: sell_loop_step del: sell_loop.simps)
      qed
    qed
  qed
qed

subsection \<open>\<open>Buy\<close> and \<open>Sell\<close> from their loops\<close>

lemma f1e18_not_NaN: "f1e18 \<noteq> NaN" by (simp add: f1e18_def)
lemma f0_not_NaN: "f0 \<noteq> NaN" by (simp add: f0_def)

lemma Buy_fst_snd:
  "Buy exs amount symbol =
     (if feq (fst (buy_loop exs symbol (f1e18, []))) f1e18 then no_price symbol
      else (fmul amount (fst (buy_loop exs symbol (f1e18, []))),
            Some (snd (buy_loop exs symbol (f1e18, []))), None))"
  by (simp add: Buy_def no_price_def split: prod.splits)

lemma Sell_fst_snd:
  "Sell exs amount symbol =
     (if feq (fst (sell_loop exs symbol (f0, []))) f0 then no_price symbol
      else (fmul amount (fst (sell_loop exs symbol (f0, []))),
            Some (snd (sell_loop exs symbol (f0, []))), None))"
  by (simp add: Sell_def no_price_def split: prod.splits)

lemma Buy_success:
  assumes "e \<in> set exs" "succeeded e symbol" "flt (ask_of e symbol) f1e18"
  shows "min_ask exs symbol (fst (buy_loop exs symbol (f1e18, [])))"
    and "flt (fst (buy_loop exs symbol (f1e18, []))) f1e18"
    and "Buy exs amount symbol =
      (fmul amount (fst (buy_loop exs symbol (f1e18, []))),
       Some (winners_at ask_of exs symbol (fst (buy_loop exs symbol (f1e18, [])))), None)"
proof -
  let ?m = "fst (buy_loop exs symbol (f1e18, []))"
  have nn: "?m \<noteq> NaN" by (rule buy_loop_not_NaN[OF f1e18_not_NaN])
  have least: "\<forall>x\<in>set exs. succeeded x symbol \<longrightarrow> \<not> flt (ask_of x symbol) ?m"
    using buy_loop_least[OF f1e18_not_NaN] by blast
  from least assms have "\<not> flt (ask_of e symbol) ?m" by blast
  with assms(3) have ne: "?m \<noteq> f1e18" by auto
  with buy_loop_attained[of exs symbol f1e18 "[]"]
  have att: "\<exists>x\<in>set exs. succeeded x symbol \<and> ask_of x symbol = ?m" by blast
  show "min_ask exs symbol ?m"
    using nn att least by (simp add: min_ask_def)
  show "flt ?m f1e18"
    using flt_total[OF nn f1e18_not_NaN] ne buy_loop_lower[OF f1e18_not_NaN, of exs symbol "[]"]
    by blast
  have ws: "snd (buy_loop exs symbol (f1e18, [])) = winners_at ask_of exs symbol ?m"
    using buy_loop_winners[OF f1e18_not_NaN, of exs symbol "[]"] ne
    by (simp add: winners_at_def)
  show "Buy exs amount symbol = (fmul amount ?m, Some (winners_at ask_of exs symbol ?m), None)"
    using ne ws by (simp add: Buy_fst_snd feq_def)
qed

lemma Buy_failure:
  assumes "\<forall>e\<in>set exs. succeeded e symbol \<longrightarrow> \<not> flt (ask_of e symbol) f1e18"
  shows "fst (buy_loop exs symbol (f1e18, [])) = f1e18"
    and "Buy exs amount symbol = no_price symbol"
proof -
  let ?m = "fst (buy_loop exs symbol (f1e18, []))"
  have nn: "?m \<noteq> NaN" by (rule buy_loop_not_NaN[OF f1e18_not_NaN])
  have low: "\<not> flt f1e18 ?m" by (rule buy_loop_lower[OF f1e18_not_NaN])
  show eq: "?m = f1e18"
  proof (rule ccontr)
    assume ne: "?m \<noteq> f1e18"
    with buy_loop_attained[of exs symbol f1e18 "[]"]
    obtain x where "x \<in> set exs" "succeeded x symbol" "ask_of x symbol = ?m" by blast
    with assms have "\<not> flt ?m f1e18" by auto
    with flt_total[OF nn f1e18_not_NaN] ne low show False by blast
  qed
  then show "Buy exs amount symbol = no_price symbol"
    by (simp add: Buy_fst_snd feq_def f1e18_not_NaN)
qed

lemma Sell_success:
  assumes "e \<in> set exs" "succeeded e symbol" "flt f0 (bid_of e symbol)"
  shows "max_bid exs symbol (fst (sell_loop exs symbol (f0, [])))"
    and "flt f0 (fst (sell_loop exs symbol (f0, [])))"
    and "Sell exs amount symbol =
      (fmul amount (fst (sell_loop exs symbol (f0, []))),
       Some (winners_at bid_of exs symbol (fst (sell_loop exs symbol (f0, [])))), None)"
proof -
  let ?m = "fst (sell_loop exs symbol (f0, []))"
  have nn: "?m \<noteq> NaN" by (rule sell_loop_not_NaN[OF f0_not_NaN])
  have greatest: "\<forall>x\<in>set exs. succeeded x symbol \<longrightarrow> \<not> flt ?m (bid_of x symbol)"
    using sell_loop_greatest[OF f0_not_NaN] by blast
  from greatest assms have "\<not> flt ?m (bid_of e symbol)" by blast
  with assms(3) have ne: "?m \<noteq> f0" by auto
  with sell_loop_attained[of exs symbol f0 "[]"]
  have att: "\<exists>x\<in>set exs. succeeded x symbol \<and> bid_of x symbol = ?m" by blast
  show "max_bid exs symbol ?m"
    using nn att greatest by (simp add: max_bid_def)
  show "flt f0 ?m"
    using flt_total[OF nn f0_not_NaN] ne sell_loop_upper[OF f0_not_NaN, of exs symbol "[]"]
    by blast
  have ws: "snd (sell_loop exs symbol (f0, [])) = winners_at bid_of exs symbol ?m"
    using sell_loop_winners[OF f0_not_NaN, of exs symbol "[]"] ne
    by (simp add: winners_at_def)
  show "Sell exs amount symbol = (fmul amount ?m, Some (winners_at bid_of exs symbol ?m), None)"
    using ne ws by (simp add: Sell_fst_snd feq_def)
qed

lemma Sell_failure:
  assumes "\<forall>e\<in>set exs. succeeded e symbol \<longrightarrow> \<not> flt f0 (bid_of e symbol)"
  shows "fst (sell_loop exs symbol (f0, [])) = f0"
    and "Sell exs amount symbol = no_price symbol"
proof -
  let ?m = "fst (sell_loop exs symbol (f0, []))"
  have nn: "?m \<noteq> NaN" by (rule sell_loop_not_NaN[OF f0_not_NaN])
  have up: "\<not> flt ?m f0" by (rule sell_loop_upper[OF f0_not_NaN])
  show eq: "?m = f0"
  proof (rule ccontr)
    assume ne: "?m \<noteq> f0"
    with sell_loop_attained[of exs symbol f0 "[]"]
    obtain x where "x \<in> set exs" "succeeded x symbol" "bid_of x symbol = ?m" by blast
    with assms have "\<not> flt f0 ?m" by auto
    with flt_total[OF nn f0_not_NaN] ne up show False by blast
  qed
  then show "Sell exs amount symbol = no_price symbol"
    by (simp add: Sell_fst_snd feq_def f0_not_NaN)
qed

lemma min_ask_unique: "min_ask exs symbol m \<Longrightarrow> min_ask exs symbol m' \<Longrightarrow> m = m'"
  unfolding min_ask_def using flt_total by blast

lemma max_bid_unique: "max_bid exs symbol m \<Longrightarrow> max_bid exs symbol m' \<Longrightarrow> m = m'"
  unfolding max_bid_def using flt_total by blast

lemma min_ask_set: "set exs' = set exs \<Longrightarrow> min_ask exs' symbol m = min_ask exs symbol m"
  by (simp add: min_ask_def)

lemma max_bid_set: "set exs' = set exs \<Longrightarrow> max_bid exs' symbol m = max_bid exs symbol m"
  by (simp add: max_bid_def)

lemma winners_at_set:
  "set exs' = set exs \<Longrightarrow> set (winners_at p exs' symbol m) = set (winners_at p exs symbol m)"
  by (simp add: winners_at_def)

lemma winners_at_mset:
  "mset exs' = mset exs \<Longrightarrow> mset (winners_at p exs' symbol m) = mset (winners_at p exs symbol m)"
proof -
  assume "mset exs' = mset exs"
  then have "image_mset GetName (filter_mset (\<lambda>e. succeeded e symbol \<and> feq (p e symbol) m) (mset exs'))
      = image_mset GetName (filter_mset (\<lambda>e. succeeded e symbol \<and> feq (p e symbol) m) (mset exs))"
    by simp
  then show ?thesis
    by (simp add: winners_at_def)
qed

lemma Buy_err_None_iff:
  "(snd (snd (Buy exs amount symbol)) = None) =
   (\<exists>e\<in>set exs. succeeded e symbol \<and> flt (ask_of e symbol) f1e18)"
proof
  assume ok: "snd (snd (Buy exs amount symbol)) = None"
  show "\<exists>e\<in>set exs. succeeded e symbol \<and> flt (ask_of e symbol) f1e18"
  proof (rule ccontr)
    assume "\<not> (\<exists>e\<in>set exs. succeeded e symbol \<and> flt (ask_of e symbol) f1e18)"
    then have "\<forall>e\<in>set exs. succeeded e symbol \<longrightarrow> \<not> flt (ask_of e symbol) f1e18"
      by blast
    from Buy_failure(2)[OF this, of amount] ok show False
      by (simp add: no_price_def)
  qed
next
  assume "\<exists>e\<in>set exs. succeeded e symbol \<and> flt (ask_of e symbol) f1e18"
  then obtain e where "e \<in> set exs" "succeeded e symbol" "flt (ask_of e symbol) f1e18"
    by blast
  from Buy_success(3)[OF this, of amount] show "snd (snd (Buy exs amount symbol)) = None"
    by simp
qed

lemma Sell_err_None_iff:
  "(snd (snd (Sell exs amount symbol)) = None) =
   (\<exists>e\<in>set exs. succeeded e symbol \<and> flt f0 (bid_of e symbol))"
proof
  assume ok: "snd (snd (Sell exs amount symbol)) = None"
  show "\<exists>e\<in>set exs. succeeded e symbol \<and> flt f0 (bid_of e symbol)"
  proof (rule ccontr)
    assume "\<not> (\<exists>e\<in>set exs. succeeded e symbol \<and> flt f0 (bid_of e symbol))"
    then have "\<forall>e\<in>set exs. succeeded e symbol \<longrightarrow> \<not> flt f0 (bid_of e symbol)"
      by blast
    from Sell_failure(2)[OF this, of amount] ok show False
      by (simp add: no_price_def)
  qed
next
  assume "\<exists>e\<in>set exs. succeeded e symbol \<and> flt f0 (bid_of e symbol)"
  then obtain e where "e \<in> set exs" "succeeded e symbol" "flt f0 (bid_of e symbol)"
    by blast
  from Sell_success(3)[OF this, of amount] show "snd (snd (Sell exs amount symbol)) = None"
    by simp
qed

lemma min_ask_winners_nonempty:
  "min_ask exs symbol m \<Longrightarrow> winners_at ask_of exs symbol m \<noteq> []"
  by (auto simp: min_ask_def winners_at_def filter_empty_conv feq_def)

lemma max_bid_winners_nonempty:
  "max_bid exs symbol m \<Longrightarrow> winners_at bid_of exs symbol m \<noteq> []"
  by (auto simp: max_bid_def winners_at_def filter_empty_conv feq_def)

lemma winners_at_member:
  "n \<in> set (winners_at p exs symbol m) \<Longrightarrow>
   \<exists>e\<in>set exs. GetName e = n \<and> succeeded e symbol \<and> feq (p e symbol) m"
  by (auto simp: winners_at_def)

subsection \<open>The adapters and the handlers\<close>

text \<open>
  A success of the Coinbase adapter always carries two parsed prices: both top-of-book
  entries were present, were strings, and were parsed without error.
\<close>

lemma coinbase_success_prices_parsed:
  assumes "CoinbaseExchange_GetPrices pf http = Returns (a, b, None)"
  shows "\<exists>r bidText askText. http = Decoded r \<and>
           Bids r \<noteq> [] \<and> Bids r ! 0 \<noteq> [] \<and> Asks r \<noteq> [] \<and> Asks r ! 0 \<noteq> [] \<and>
           Bids r ! 0 ! 0 = AString bidText \<and> Asks r ! 0 ! 0 = AString askText \<and>
           pf bidText = (b, None) \<and> pf askText = (a, None)"
  using assms
  by (auto simp: CoinbaseExchange_GetPrices_def
      split: fetched.splits if_splits any.splits prod.splits option.splits)

text \<open>
  Each handler either answers with the rejection, or with the response built from the
  result of the order service called with the amount and the symbol read from the request.
\<close>

lemma BuyHandler_cases:
  "BuyHandler exs c =
     (if feq (QueryFloat c ''amount'' (Fin 0)) (Fin 0) then invalid_amount
      else order_response (Query c ''symbol'') (QueryFloat c ''amount'' (Fin 0))
             (Buy exs (QueryFloat c ''amount'' (Fin 0)) (Query c ''symbol'')))"
  by (simp add: BuyHandler_def Let_def invalid_amount_def order_response_def
      split: prod.splits option.splits)

lemma SellHandler_cases:
  "SellHandler exs c =
     (if feq (QueryFloat c ''amount'' (Fin 0)) (Fin 0) then invalid_amount
      else order_response (Query c ''symbol'') (QueryFloat c ''amount'' (Fin 0))
             (Sell exs (QueryFloat c ''amount'' (Fin 0)) (Query c ''symbol'')))"
  by (simp add: SellHandler_def Let_def invalid_amount_def order_response_def
      split: prod.splits option.splits)

lemma order_response_not_invalid: "order_response symbol amount r \<noteq> invalid_amount"
  by (simp add: order_response_def invalid_amount_def split: prod.splits option.splits)

lemma fiber_QueryFloat:
  "QueryFloat (fiber_Ctx pf args) key d =
     (if snd (pf (query_text args key)) = None then fst (pf (query_text args key)) else d)"
  by (simp add: fiber_Ctx_def split: prod.splits option.splits)

lemma fiber_Query: "Query (fiber_Ctx pf args) key = query_text args key"
  by (simp add: fiber_Ctx_def)

lemma fiber_amount_zero_iff:
  "feq (QueryFloat (fiber_Ctx pf args) ''amount'' (Fin 0)) (Fin 0) =
   (snd (pf (query_text args ''amount'')) \<noteq> None \<or>
    feq (fst (pf (query_text args ''amount''))) (Fin 0))"
  by (simp add: fiber_QueryFloat feq_def)

subsection \<open>The repository's tests\<close>

text \<open>
  Rows of the tables in \<open>TestBuyHandler\<close> and \<open>TestSellHandler\<close>, computed by the model:
  the same price on both exchanges, one exchange down, and both exchanges down.
\<close>

lemma test_buy_same_price_on_both:
  "BuyHandler [MockExchange ''coinbase'' (Fin 10000) (Fin 10000) None,
               MockExchange ''kraken'' (Fin 10000) (Fin 10000) None]
     (fiber_Ctx parse_sample [''amount'' \<mapsto> ''1'', ''symbol'' \<mapsto> ''BTC''])
   = (200, [(''coin'', AString ''BTC''),
            (''amount'', ANumber (Fin 1)),
            (''usdAmount'', ANumber (Fin 10000)),
            (''exchange'', AArray [AString ''coinbase'', AString ''kraken''])])"
  by (simp add: BuyHandler_def fiber_Ctx_def query_text_def parse_sample_def Buy_def
      MockExchange_def feq_def f1e18_def exchanges_value_def)

lemma test_sell_coinbase_down:
  "SellHandler [MockExchange ''coinbase'' (Fin 0) (Fin 0) (Some ''coinbase error''),
                MockExchange ''kraken'' (Fin 9900) (Fin 9900) None]
     (fiber_Ctx parse_sample [''amount'' \<mapsto> ''1'', ''symbol'' \<mapsto> ''BTC''])
   = (200, [(''coin'', AString ''BTC''),
            (''amount'', ANumber (Fin 1)),
            (''usdAmount'', ANumber (Fin 9900)),
            (''exchange'', AArray [AString ''kraken''])])"
  by (simp add: SellHandler_def fiber_Ctx_def query_text_def parse_sample_def Sell_def
      MockExchange_def feq_def fgt_def f0_def exchanges_value_def)

lemma test_buy_both_down:
  "BuyHandler [MockExchange ''coinbase'' (Fin 0) (Fin 0) (Some ''coinbase error''),
               MockExchange ''kraken'' (Fin 0) (Fin 0) (Some ''kraken error'')]
     (fiber_Ctx parse_sample [''amount'' \<mapsto> ''1'', ''symbol'' \<mapsto> ''BTC''])
   = (500, [(''error'', AString ''failed to find best price for BTC'')])"
  by (simp add: BuyHandler_def fiber_Ctx_def query_text_def parse_sample_def Buy_def
      MockExchange_def feq_def f1e18_def)

lemma test_sell_invalid_amount:
  "SellHandler exs (fiber_Ctx parse_sample [''amount'' \<mapsto> ''invalid'', ''symbol'' \<mapsto> ''BTC''])
   = (400, [(''error'', AString ''invalid amount'')])"
  by (simp add: SellHandler_def fiber_Ctx_def query_text_def parse_sample_def feq_def)

text \<open>
  A successful exchange that reports the price \<open>0\<close> wins every \<open>Buy\<close>: the quoted amount
  is \<open>0\<close>.
\<close>

lemma zero_ask_wins_buy:
  "Buy [MockExchange ''coinbase'' (Fin 9900) (Fin 9900) None,
        MockExchange ''kraken'' (Fin 0) (Fin 0) None] (Fin 1) ''BTC''
   = (Fin 0, Some [''kraken''], None)"
  by (simp add: Buy_def MockExchange_def feq_def f1e18_def)

lemmas mock_simps = succeeded_def ask_of_def bid_of_def MockExchange_def f1e18_def f0_def

subsection \<open>The claims\<close>

text \<open>
  C8 (scenario C of the specification): selling 0.5 with coinbase bidding 9900 and kraken
  bidding 10000, in that order, returns the amount 5000 and the winners list
  \<open>[kraken]\<close>, whatever the two asks and the symbol are.
\<close>

theorem sell_scenario_C:
  "Sell [MockExchange ''coinbase'' a1 (Fin 9900) None,
         MockExchange ''kraken'' a2 (Fin 10000) None] (Fin 0.5) symbol
   = (Fin 5000, Some [''kraken''], None)"
  by (simp add: Sell_def MockExchange_def fgt_def feq_def f0_def)

text \<open>
  C1, as amended. Let \<open>exs'\<close> be any permutation of the exchange list \<open>exs\<close>. If some
  successful exchange asks less than \<open>1e18\<close>, then \<open>Buy\<close> on both lists multiplies the
  amount by the same price \<open>m\<close>, the least ask among the successful exchanges, and returns
  as winners the names of the successful exchanges asking exactly \<open>m\<close>, each list in its
  own order, the two lists having the same members. If some successful exchange bids more
  than \<open>0\<close>, the same holds for \<open>Sell\<close> and the greatest bid.
\<close>
theorem best_price_under_permutation:
  assumes "mset exs' = mset exs"
  shows "((\<exists>e\<in>set exs. succeeded e symbol \<and> flt (ask_of e symbol) f1e18) \<longrightarrow>
          (\<exists>m. min_ask exs symbol m \<and> min_ask exs' symbol m \<and>
             Buy exs amount symbol =
               (fmul amount m, Some (winners_at ask_of exs symbol m), None) \<and>
             Buy exs' amount symbol =
               (fmul amount m, Some (winners_at ask_of exs' symbol m), None) \<and>
             set (winners_at ask_of exs' symbol m) = set (winners_at ask_of exs symbol m)))
       \<and> ((\<exists>e\<in>set exs. succeeded e symbol \<and> flt f0 (bid_of e symbol)) \<longrightarrow>
          (\<exists>m. max_bid exs symbol m \<and> max_bid exs' symbol m \<and>
             Sell exs amount symbol =
               (fmul amount m, Some (winners_at bid_of exs symbol m), None) \<and>
             Sell exs' amount symbol =
               (fmul amount m, Some (winners_at bid_of exs' symbol m), None) \<and>
             set (winners_at bid_of exs' symbol m) = set (winners_at bid_of exs symbol m)))"
proof (intro conjI impI)
  from assms have sets: "set exs' = set exs" by (rule mset_eq_setD)
  {
    assume "\<exists>e\<in>set exs. succeeded e symbol \<and> flt (ask_of e symbol) f1e18"
    then obtain e where e: "e \<in> set exs" "succeeded e symbol" "flt (ask_of e symbol) f1e18"
      by blast
    from e sets have e': "e \<in> set exs'" by simp
    let ?m = "fst (buy_loop exs symbol (f1e18, []))"
    let ?m' = "fst (buy_loop exs' symbol (f1e18, []))"
    have m: "min_ask exs symbol ?m" by (rule Buy_success(1)[OF e])
    have "min_ask exs' symbol ?m'" by (rule Buy_success(1)[OF e' e(2,3)])
    then have "min_ask exs symbol ?m'" by (simp add: min_ask_set[OF sets])
    with m have eq: "?m' = ?m" by (rule min_ask_unique[rotated])
    have "min_ask exs' symbol ?m" using m by (simp add: min_ask_set[OF sets])
    moreover have "Buy exs' amount symbol =
        (fmul amount ?m, Some (winners_at ask_of exs' symbol ?m), None)"
      using Buy_success(3)[OF e' e(2,3), of amount] eq by simp
    ultimately show "\<exists>m. min_ask exs symbol m \<and> min_ask exs' symbol m \<and>
             Buy exs amount symbol =
               (fmul amount m, Some (winners_at ask_of exs symbol m), None) \<and>
             Buy exs' amount symbol =
               (fmul amount m, Some (winners_at ask_of exs' symbol m), None) \<and>
             set (winners_at ask_of exs' symbol m) = set (winners_at ask_of exs symbol m)"
      using m Buy_success(3)[OF e, of amount] winners_at_set[OF sets] by blast
  }
  {
    assume "\<exists>e\<in>set exs. succeeded e symbol \<and> flt f0 (bid_of e symbol)"
    then obtain e where e: "e \<in> set exs" "succeeded e symbol" "flt f0 (bid_of e symbol)"
      by blast
    from e sets have e': "e \<in> set exs'" by simp
    let ?m = "fst (sell_loop exs symbol (f0, []))"
    let ?m' = "fst (sell_loop exs' symbol (f0, []))"
    have m: "max_bid exs symbol ?m" by (rule Sell_success(1)[OF e])
    have "max_bid exs' symbol ?m'" by (rule Sell_success(1)[OF e' e(2,3)])
    then have "max_bid exs symbol ?m'" by (simp add: max_bid_set[OF sets])
    with m have eq: "?m' = ?m" by (rule max_bid_unique[rotated])
    have "max_bid exs' symbol ?m" using m by (simp add: max_bid_set[OF sets])
    moreover have "Sell exs' amount symbol =
        (fmul amount ?m, Some (winners_at bid_of exs' symbol ?m), None)"
      using Sell_success(3)[OF e' e(2,3), of amount] eq by simp
    ultimately show "\<exists>m. max_bid exs symbol m \<and> max_bid exs' symbol m \<and>
             Sell exs amount symbol =
               (fmul amount m, Some (winners_at bid_of exs symbol m), None) \<and>
             Sell exs' amount symbol =
               (fmul amount m, Some (winners_at bid_of exs' symbol m), None) \<and>
             set (winners_at bid_of exs' symbol m) = set (winners_at bid_of exs symbol m)"
      using m Sell_success(3)[OF e, of amount] winners_at_set[OF sets] by blast
  }
qed

text \<open>
  A tie at 10000 on both sides, and the same two exchanges in the other order: the price is the same, the winners follow each list's order.
\<close>

theorem best_price_under_permutation_witness:
  "mset [MockExchange ''kraken'' (Fin 10000) (Fin 10000) None,
         MockExchange ''coinbase'' (Fin 10000) (Fin 10000) None]
   = mset [MockExchange ''coinbase'' (Fin 10000) (Fin 10000) None,
           MockExchange ''kraken'' (Fin 10000) (Fin 10000) None]
   \<and> Buy [MockExchange ''coinbase'' (Fin 10000) (Fin 10000) None,
          MockExchange ''kraken'' (Fin 10000) (Fin 10000) None] (Fin 1) ''BTC''
       = (Fin 10000, Some [''coinbase'', ''kraken''], None)
   \<and> Buy [MockExchange ''kraken'' (Fin 10000) (Fin 10000) None,
          MockExchange ''coinbase'' (Fin 10000) (Fin 10000) None] (Fin 1) ''BTC''
       = (Fin 10000, Some [''kraken'', ''coinbase''], None)
   \<and> Sell [MockExchange ''coinbase'' (Fin 10000) (Fin 10000) None,
           MockExchange ''kraken'' (Fin 10000) (Fin 10000) None] (Fin 1) ''BTC''
       = (Fin 10000, Some [''coinbase'', ''kraken''], None)
   \<and> Sell [MockExchange ''kraken'' (Fin 10000) (Fin 10000) None,
           MockExchange ''coinbase'' (Fin 10000) (Fin 10000) None] (Fin 1) ''BTC''
       = (Fin 10000, Some [''kraken'', ''coinbase''], None)"
proof -
  let ?c = "MockExchange ''coinbase'' (Fin 10000) (Fin 10000) None"
  let ?k = "MockExchange ''kraken'' (Fin 10000) (Fin 10000) None"
  have p: "mset [?k, ?c] = mset [?c, ?k]" by simp
  have hb: "\<exists>e\<in>set [?c, ?k]. succeeded e ''BTC'' \<and> flt (ask_of e ''BTC'') f1e18"
    by (simp add: mock_simps)
  have hs: "\<exists>e\<in>set [?c, ?k]. succeeded e ''BTC'' \<and> flt f0 (bid_of e ''BTC'')"
    by (simp add: mock_simps)
  have ne: "?c \<noteq> ?k" by (simp add: MockExchange_def)
  from best_price_under_permutation[OF p, of "''BTC''" "Fin 1"] hb hs
  obtain m m' where
    m: "min_ask [?c, ?k] ''BTC'' m"
      "Buy [?c, ?k] (Fin 1) ''BTC'' = (fmul (Fin 1) m, Some (winners_at ask_of [?c, ?k] ''BTC'' m), None)"
      "Buy [?k, ?c] (Fin 1) ''BTC'' = (fmul (Fin 1) m, Some (winners_at ask_of [?k, ?c] ''BTC'' m), None)"
    and m': "max_bid [?c, ?k] ''BTC'' m'"
      "Sell [?c, ?k] (Fin 1) ''BTC'' = (fmul (Fin 1) m', Some (winners_at bid_of [?c, ?k] ''BTC'' m'), None)"
      "Sell [?k, ?c] (Fin 1) ''BTC'' = (fmul (Fin 1) m', Some (winners_at bid_of [?k, ?c] ''BTC'' m'), None)"
    by blast
  from m(1) have "m = Fin 10000" by (auto simp: min_ask_def mock_simps)
  moreover from m'(1) have "m' = Fin 10000" by (auto simp: max_bid_def mock_simps)
  ultimately show ?thesis
    using m(2,3) m'(2,3) p by (simp add: winners_at_def mock_simps feq_def)
qed

text \<open>
  The claim as first stated fails: a single successful exchange asking \<open>2e18\<close> has the
  least ask among the successes, and \<open>Buy\<close> returns the failure instead of selecting it.
\<close>

theorem buy_huge_ask_counterexample:
  "Buy [MockExchange ''coinbase'' (Fin 2000000000000000000) (Fin 2000000000000000000) None]
     (Fin 1) ''BTC''
   = (Fin 0, None, Some ''failed to find best price for BTC'')"
  by (simp add: Buy_def MockExchange_def feq_def f1e18_def)

text \<open>
  C2. When the fetch of every exchange in the list fails (the empty list included), \<open>Buy\<close>
  and \<open>Sell\<close> both return the failure that names the requested symbol, with amount \<open>0\<close>
  and the \<open>nil\<close> winners list.
\<close>
theorem all_fetches_fail:
  "\<forall>e\<in>set exs. \<not> succeeded e symbol \<Longrightarrow>
   Buy exs amount symbol = (Fin 0, None, Some (''failed to find best price for '' @ symbol)) \<and>
   Sell exs amount symbol = (Fin 0, None, Some (''failed to find best price for '' @ symbol))"
proof -
  assume a: "\<forall>e\<in>set exs. \<not> succeeded e symbol"
  then have "\<forall>e\<in>set exs. succeeded e symbol \<longrightarrow> \<not> flt (ask_of e symbol) f1e18"
    and "\<forall>e\<in>set exs. succeeded e symbol \<longrightarrow> \<not> flt f0 (bid_of e symbol)"
    by simp_all
  from Buy_failure(2)[OF this(1), of amount] Sell_failure(2)[OF this(2), of amount]
  show ?thesis by (simp add: no_price_def)
qed

text \<open>
  Scenario E of the specification: both exchanges down.
\<close>

theorem all_fetches_fail_witness:
  "Buy [MockExchange ''coinbase'' (Fin 0) (Fin 0) (Some ''coinbase error''),
        MockExchange ''kraken'' (Fin 0) (Fin 0) (Some ''kraken error'')] (Fin 1) ''BTC''
     = (Fin 0, None, Some ''failed to find best price for BTC'')
   \<and> Sell [MockExchange ''coinbase'' (Fin 0) (Fin 0) (Some ''coinbase error''),
           MockExchange ''kraken'' (Fin 0) (Fin 0) (Some ''kraken error'')] (Fin 1) ''BTC''
     = (Fin 0, None, Some ''failed to find best price for BTC'')"
  using all_fetches_fail[of "[MockExchange ''coinbase'' (Fin 0) (Fin 0) (Some ''coinbase error''),
        MockExchange ''kraken'' (Fin 0) (Fin 0) (Some ''kraken error'')]" "''BTC''" "Fin 1"]
  by (simp add: mock_simps)

text \<open>
  C3. Whenever \<open>Buy\<close> returns without error, its winners list is exactly the list of
  names of the successful exchanges whose ask equals the winning price \<open>m\<close> (the least ask
  among the successes), one entry for each such exchange, in the order of the exchange
  list: none is left out, none is repeated, and nothing but the position in the list orders
  them. The same holds for \<open>Sell\<close> with the bids and the greatest bid.
\<close>
theorem ties_all_reported_in_order:
  "(snd (snd (Buy exs amount symbol)) = None \<longrightarrow>
      (\<exists>m. min_ask exs symbol m \<and>
         Buy exs amount symbol =
           (fmul amount m,
            Some (map GetName
              (filter (\<lambda>e. succeeded e symbol \<and> feq (ask_of e symbol) m) exs)),
            None)))
   \<and> (snd (snd (Sell exs amount symbol)) = None \<longrightarrow>
      (\<exists>m. max_bid exs symbol m \<and>
         Sell exs amount symbol =
           (fmul amount m,
            Some (map GetName
              (filter (\<lambda>e. succeeded e symbol \<and> feq (bid_of e symbol) m) exs)),
            None)))"
proof (intro conjI impI)
  assume "snd (snd (Buy exs amount symbol)) = None"
  then obtain e where e: "e \<in> set exs" "succeeded e symbol" "flt (ask_of e symbol) f1e18"
    unfolding Buy_err_None_iff by blast
  from Buy_success(1)[OF e] Buy_success(3)[OF e, of amount]
  show "\<exists>m. min_ask exs symbol m \<and>
         Buy exs amount symbol =
           (fmul amount m,
            Some (map GetName
              (filter (\<lambda>e. succeeded e symbol \<and> feq (ask_of e symbol) m) exs)),
            None)"
    unfolding winners_at_def by blast
next
  assume "snd (snd (Sell exs amount symbol)) = None"
  then obtain e where e: "e \<in> set exs" "succeeded e symbol" "flt f0 (bid_of e symbol)"
    unfolding Sell_err_None_iff by blast
  from Sell_success(1)[OF e] Sell_success(3)[OF e, of amount]
  show "\<exists>m. max_bid exs symbol m \<and>
         Sell exs amount symbol =
           (fmul amount m,
            Some (map GetName
              (filter (\<lambda>e. succeeded e symbol \<and> feq (bid_of e symbol) m) exs)),
            None)"
    unfolding winners_at_def by blast
qed

text \<open>
  Three exchanges, the first and the third tied at the best price on both sides.
\<close>

theorem ties_all_reported_in_order_witness:
  "Buy [MockExchange ''coinbase'' (Fin 10000) (Fin 9900) None,
        MockExchange ''gemini'' (Fin 10500) (Fin 9800) None,
        MockExchange ''kraken'' (Fin 10000) (Fin 9900) None] (Fin 1) ''BTC''
     = (Fin 10000, Some [''coinbase'', ''kraken''], None)
   \<and> Sell [MockExchange ''coinbase'' (Fin 10000) (Fin 9900) None,
           MockExchange ''gemini'' (Fin 10500) (Fin 9800) None,
           MockExchange ''kraken'' (Fin 10000) (Fin 9900) None] (Fin 1) ''BTC''
     = (Fin 9900, Some [''coinbase'', ''kraken''], None)"
proof -
  let ?exs = "[MockExchange ''coinbase'' (Fin 10000) (Fin 9900) None,
        MockExchange ''gemini'' (Fin 10500) (Fin 9800) None,
        MockExchange ''kraken'' (Fin 10000) (Fin 9900) None]"
  have okb: "snd (snd (Buy ?exs (Fin 1) ''BTC'')) = None"
    by (simp add: Buy_def mock_simps feq_def)
  have oks: "snd (snd (Sell ?exs (Fin 1) ''BTC'')) = None"
    by (simp add: Sell_def mock_simps feq_def fgt_def)
  from ties_all_reported_in_order[of ?exs "Fin 1" "''BTC''"] okb oks
  obtain m m' where
    m: "min_ask ?exs ''BTC'' m"
      "Buy ?exs (Fin 1) ''BTC'' = (fmul (Fin 1) m,
         Some (map GetName (filter (\<lambda>e. succeeded e ''BTC'' \<and> feq (ask_of e ''BTC'') m) ?exs)), None)"
    and m': "max_bid ?exs ''BTC'' m'"
      "Sell ?exs (Fin 1) ''BTC'' = (fmul (Fin 1) m',
         Some (map GetName (filter (\<lambda>e. succeeded e ''BTC'' \<and> feq (bid_of e ''BTC'') m') ?exs)), None)"
    by blast
  from m(1) have "m = Fin 10000" by (auto simp: min_ask_def mock_simps)
  moreover from m'(1) have "m' = Fin 9900" by (auto simp: max_bid_def mock_simps)
  ultimately show ?thesis
    using m(2) m'(2) by (simp add: mock_simps feq_def)
qed

text \<open>
  C4. Every result that \<open>Buy\<close> or \<open>Sell\<close> returns without error carries a winners list
  that is not \<open>nil\<close> and not empty, and every name in it is the name of a successful
  exchange whose price (ask for \<open>Buy\<close>, bid for \<open>Sell\<close>) is equal under Go's \<open>==\<close> to the
  winning price \<open>m\<close> by which the amount was multiplied.
\<close>
theorem winners_nonempty_and_exact:
  "(Buy exs amount symbol = (u, w, None) \<longrightarrow>
      (\<exists>m ws. w = Some ws \<and> ws \<noteq> [] \<and> u = fmul amount m \<and> min_ask exs symbol m \<and>
         (\<forall>n\<in>set ws. \<exists>e\<in>set exs.
            GetName e = n \<and> succeeded e symbol \<and> feq (ask_of e symbol) m)))
   \<and> (Sell exs amount symbol = (u', w', None) \<longrightarrow>
      (\<exists>m ws. w' = Some ws \<and> ws \<noteq> [] \<and> u' = fmul amount m \<and> max_bid exs symbol m \<and>
         (\<forall>n\<in>set ws. \<exists>e\<in>set exs.
            GetName e = n \<and> succeeded e symbol \<and> feq (bid_of e symbol) m)))"
proof (intro conjI impI)
  assume r: "Buy exs amount symbol = (u, w, None)"
  then have "snd (snd (Buy exs amount symbol)) = None" by simp
  then obtain e where e: "e \<in> set exs" "succeeded e symbol" "flt (ask_of e symbol) f1e18"
    unfolding Buy_err_None_iff by blast
  let ?m = "fst (buy_loop exs symbol (f1e18, []))"
  have m: "min_ask exs symbol ?m" by (rule Buy_success(1)[OF e])
  from Buy_success(3)[OF e, of amount] r
  have "w = Some (winners_at ask_of exs symbol ?m)" "u = fmul amount ?m" by simp_all
  with m min_ask_winners_nonempty[OF m] winners_at_member[of _ ask_of exs symbol ?m]
  show "\<exists>m ws. w = Some ws \<and> ws \<noteq> [] \<and> u = fmul amount m \<and> min_ask exs symbol m \<and>
         (\<forall>n\<in>set ws. \<exists>e\<in>set exs.
            GetName e = n \<and> succeeded e symbol \<and> feq (ask_of e symbol) m)"
    by blast
next
  assume r: "Sell exs amount symbol = (u', w', None)"
  then have "snd (snd (Sell exs amount symbol)) = None" by simp
  then obtain e where e: "e \<in> set exs" "succeeded e symbol" "flt f0 (bid_of e symbol)"
    unfolding Sell_err_None_iff by blast
  let ?m = "fst (sell_loop exs symbol (f0, []))"
  have m: "max_bid exs symbol ?m" by (rule Sell_success(1)[OF e])
  from Sell_success(3)[OF e, of amount] r
  have "w' = Some (winners_at bid_of exs symbol ?m)" "u' = fmul amount ?m" by simp_all
  with m max_bid_winners_nonempty[OF m] winners_at_member[of _ bid_of exs symbol ?m]
  show "\<exists>m ws. w' = Some ws \<and> ws \<noteq> [] \<and> u' = fmul amount m \<and> max_bid exs symbol m \<and>
         (\<forall>n\<in>set ws. \<exists>e\<in>set exs.
            GetName e = n \<and> succeeded e symbol \<and> feq (bid_of e symbol) m)"
    by blast
qed

text \<open>
  Scenario D of the specification: coinbase down, kraken at 9900.
\<close>

theorem winners_nonempty_and_exact_witness:
  "Buy [MockExchange ''coinbase'' (Fin 0) (Fin 0) (Some ''coinbase error''),
        MockExchange ''kraken'' (Fin 9900) (Fin 9900) None] (Fin 1) ''BTC''
     = (Fin 9900, Some [''kraken''], None)
   \<and> Sell [MockExchange ''coinbase'' (Fin 0) (Fin 0) (Some ''coinbase error''),
           MockExchange ''kraken'' (Fin 9900) (Fin 9900) None] (Fin 1) ''BTC''
     = (Fin 9900, Some [''kraken''], None)
   \<and> (\<exists>m ws. Some [''kraken''] = Some ws \<and> ws \<noteq> [] \<and> Fin 9900 = fmul (Fin 1) m \<and>
         min_ask [MockExchange ''coinbase'' (Fin 0) (Fin 0) (Some ''coinbase error''),
                  MockExchange ''kraken'' (Fin 9900) (Fin 9900) None] ''BTC'' m)
   \<and> (\<exists>m ws. Some [''kraken''] = Some ws \<and> ws \<noteq> [] \<and> Fin 9900 = fmul (Fin 1) m \<and>
         max_bid [MockExchange ''coinbase'' (Fin 0) (Fin 0) (Some ''coinbase error''),
                  MockExchange ''kraken'' (Fin 9900) (Fin 9900) None] ''BTC'' m)"
proof -
  let ?exs = "[MockExchange ''coinbase'' (Fin 0) (Fin 0) (Some ''coinbase error''),
        MockExchange ''kraken'' (Fin 9900) (Fin 9900) None]"
  have b: "Buy ?exs (Fin 1) ''BTC'' = (Fin 9900, Some [''kraken''], None)"
    by (simp add: Buy_def mock_simps feq_def)
  have s: "Sell ?exs (Fin 1) ''BTC'' = (Fin 9900, Some [''kraken''], None)"
    by (simp add: Sell_def mock_simps feq_def fgt_def)
  from winners_nonempty_and_exact[of ?exs "Fin 1" "''BTC''" "Fin 9900" "Some [''kraken'']"
      "Fin 9900" "Some [''kraken'']"] b s
  show ?thesis by blast
qed

text \<open>
  C5, as amended. When the best price is still the sentinel after the loop (\<open>1e18\<close> in
  \<open>Buy\<close>, \<open>0.0\<close> in \<open>Sell\<close>), the function returns amount \<open>0\<close>, \<open>nil\<close> winners and the
  error text \<open>failed to find best price for\<close> followed by the requested symbol. The
  sentinel remains exactly when no successful exchange asks less than \<open>1e18\<close> (for \<open>Sell\<close>:
  bids more than \<open>0\<close>), which covers the case that every exchange failed.
\<close>
theorem sentinel_failure_message:
  "(feq (fst (buy_loop exs symbol (f1e18, []))) f1e18 \<longrightarrow>
      Buy exs amount symbol =
        (Fin 0, None, Some (''failed to find best price for '' @ symbol)))
   \<and> (feq (fst (sell_loop exs symbol (f0, []))) f0 \<longrightarrow>
      Sell exs amount symbol =
        (Fin 0, None, Some (''failed to find best price for '' @ symbol)))
   \<and> (feq (fst (buy_loop exs symbol (f1e18, []))) f1e18 =
        (\<forall>e\<in>set exs. succeeded e symbol \<longrightarrow> \<not> flt (ask_of e symbol) f1e18))
   \<and> (feq (fst (sell_loop exs symbol (f0, []))) f0 =
        (\<forall>e\<in>set exs. succeeded e symbol \<longrightarrow> \<not> flt f0 (bid_of e symbol)))"
proof (intro conjI impI)
  assume "feq (fst (buy_loop exs symbol (f1e18, []))) f1e18"
  then show "Buy exs amount symbol =
      (Fin 0, None, Some (''failed to find best price for '' @ symbol))"
    by (simp add: Buy_fst_snd no_price_def)
next
  assume "feq (fst (sell_loop exs symbol (f0, []))) f0"
  then show "Sell exs amount symbol =
      (Fin 0, None, Some (''failed to find best price for '' @ symbol))"
    by (simp add: Sell_fst_snd no_price_def)
next
  show "feq (fst (buy_loop exs symbol (f1e18, []))) f1e18 =
      (\<forall>e\<in>set exs. succeeded e symbol \<longrightarrow> \<not> flt (ask_of e symbol) f1e18)"
  proof
    assume s: "feq (fst (buy_loop exs symbol (f1e18, []))) f1e18"
    show "\<forall>e\<in>set exs. succeeded e symbol \<longrightarrow> \<not> flt (ask_of e symbol) f1e18"
    proof (intro ballI impI notI)
      fix e assume "e \<in> set exs" "succeeded e symbol" "flt (ask_of e symbol) f1e18"
      from Buy_success(2)[OF this] s show False
        by (simp add: feq_def flt_irrefl)
    qed
  next
    assume "\<forall>e\<in>set exs. succeeded e symbol \<longrightarrow> \<not> flt (ask_of e symbol) f1e18"
    from Buy_failure(1)[OF this] show "feq (fst (buy_loop exs symbol (f1e18, []))) f1e18"
      by (simp add: feq_def f1e18_not_NaN)
  qed
next
  show "feq (fst (sell_loop exs symbol (f0, []))) f0 =
      (\<forall>e\<in>set exs. succeeded e symbol \<longrightarrow> \<not> flt f0 (bid_of e symbol))"
  proof
    assume s: "feq (fst (sell_loop exs symbol (f0, []))) f0"
    show "\<forall>e\<in>set exs. succeeded e symbol \<longrightarrow> \<not> flt f0 (bid_of e symbol)"
    proof (intro ballI impI notI)
      fix e assume "e \<in> set exs" "succeeded e symbol" "flt f0 (bid_of e symbol)"
      from Sell_success(2)[OF this] s show False
        by (simp add: feq_def flt_irrefl)
    qed
  next
    assume "\<forall>e\<in>set exs. succeeded e symbol \<longrightarrow> \<not> flt f0 (bid_of e symbol)"
    from Sell_failure(1)[OF this] show "feq (fst (sell_loop exs symbol (f0, []))) f0"
      by (simp add: feq_def f0_not_NaN)
  qed
qed

text \<open>
  One exchange succeeds with an ask equal to the sentinel \<open>1e18\<close> and a bid of \<open>0\<close>, the other is down.
\<close>

theorem sentinel_failure_message_witness:
  "feq (fst (buy_loop [MockExchange ''coinbase'' (Fin 1000000000000000000) (Fin 0) None,
                       MockExchange ''kraken'' (Fin 0) (Fin 0) (Some ''kraken error'')]
                      ''BTC'' (f1e18, []))) f1e18
   \<and> Buy [MockExchange ''coinbase'' (Fin 1000000000000000000) (Fin 0) None,
          MockExchange ''kraken'' (Fin 0) (Fin 0) (Some ''kraken error'')] (Fin 1) ''BTC''
     = (Fin 0, None, Some ''failed to find best price for BTC'')
   \<and> feq (fst (sell_loop [MockExchange ''coinbase'' (Fin 1000000000000000000) (Fin 0) None,
                       MockExchange ''kraken'' (Fin 0) (Fin 0) (Some ''kraken error'')]
                      ''BTC'' (f0, []))) f0
   \<and> Sell [MockExchange ''coinbase'' (Fin 1000000000000000000) (Fin 0) None,
           MockExchange ''kraken'' (Fin 0) (Fin 0) (Some ''kraken error'')] (Fin 1) ''BTC''
     = (Fin 0, None, Some ''failed to find best price for BTC'')"
proof -
  let ?exs = "[MockExchange ''coinbase'' (Fin 1000000000000000000) (Fin 0) None,
               MockExchange ''kraken'' (Fin 0) (Fin 0) (Some ''kraken error'')]"
  have hb: "feq (fst (buy_loop ?exs ''BTC'' (f1e18, []))) f1e18"
    by (simp add: mock_simps feq_def)
  have hs: "feq (fst (sell_loop ?exs ''BTC'' (f0, []))) f0"
    by (simp add: mock_simps feq_def fgt_def)
  from sentinel_failure_message[of ?exs "''BTC''" "Fin 1"] hb hs
  show ?thesis by simp
qed

text \<open>
  The claim as first stated fails: with both exchanges down (scenario E of the
  specification) the error text is \<open>failed to find best price for BTC\<close>, which is also
  what the repository's tests expect, and not \<open>no price available for BTC\<close>.
\<close>

theorem no_price_message_counterexample:
  "snd (snd (Buy [MockExchange ''coinbase'' (Fin 0) (Fin 0) (Some ''coinbase error''),
                  MockExchange ''kraken'' (Fin 0) (Fin 0) (Some ''kraken error'')]
             (Fin 1) ''BTC''))
     = Some ''failed to find best price for BTC''
   \<and> snd (snd (Buy [MockExchange ''coinbase'' (Fin 0) (Fin 0) (Some ''coinbase error''),
                  MockExchange ''kraken'' (Fin 0) (Fin 0) (Some ''kraken error'')]
             (Fin 1) ''BTC''))
     \<noteq> Some ''no price available for BTC''"
  by (simp add: Buy_def MockExchange_def feq_def f1e18_def)

text \<open>
  C10. If every exchange fails or bids exactly \<open>0.0\<close>, \<open>Sell\<close> returns the failure, even
  when some exchanges succeeded; and whenever \<open>Sell\<close> returns a winners list, the winning
  price \<open>m\<close> (the greatest bid among the successes, by which the amount is multiplied and
  which every winner bids) is greater than \<open>0.0\<close>.
\<close>
theorem sell_zero_bid_never_wins:
  "((\<forall>e\<in>set exs. \<not> succeeded e symbol \<or> feq (bid_of e symbol) f0) \<longrightarrow>
      Sell exs amount symbol =
        (Fin 0, None, Some (''failed to find best price for '' @ symbol)))
   \<and> (Sell exs amount symbol = (u, Some ws, None) \<longrightarrow>
      (\<exists>m. flt f0 m \<and> max_bid exs symbol m \<and> u = fmul amount m \<and>
           ws = winners_at bid_of exs symbol m))"
proof (intro conjI impI)
  assume a: "\<forall>e\<in>set exs. \<not> succeeded e symbol \<or> feq (bid_of e symbol) f0"
  have "\<forall>e\<in>set exs. succeeded e symbol \<longrightarrow> \<not> flt f0 (bid_of e symbol)"
  proof (intro ballI impI)
    fix e assume "e \<in> set exs" "succeeded e symbol"
    with a have "feq (bid_of e symbol) f0" by blast
    then show "\<not> flt f0 (bid_of e symbol)" by (simp add: feq_def flt_irrefl)
  qed
  from Sell_failure(2)[OF this, of amount]
  show "Sell exs amount symbol =
      (Fin 0, None, Some (''failed to find best price for '' @ symbol))"
    by (simp add: no_price_def)
next
  assume r: "Sell exs amount symbol = (u, Some ws, None)"
  then have "snd (snd (Sell exs amount symbol)) = None" by simp
  then obtain e where e: "e \<in> set exs" "succeeded e symbol" "flt f0 (bid_of e symbol)"
    unfolding Sell_err_None_iff by blast
  from Sell_success(1,2)[OF e] Sell_success(3)[OF e, of amount] r
  show "\<exists>m. flt f0 m \<and> max_bid exs symbol m \<and> u = fmul amount m \<and>
           ws = winners_at bid_of exs symbol m"
    by auto
qed

text \<open>
  Kraken succeeds with a bid of \<open>0.0\<close> while coinbase is down; and scenario C, where the winning bid is above zero.
\<close>

theorem sell_zero_bid_never_wins_witness:
  "Sell [MockExchange ''coinbase'' (Fin 0) (Fin 0) (Some ''coinbase error''),
         MockExchange ''kraken'' (Fin 9900) (Fin 0) None] (Fin 1) ''BTC''
     = (Fin 0, None, Some ''failed to find best price for BTC'')
   \<and> Sell [MockExchange ''coinbase'' (Fin 9900) (Fin 9900) None,
           MockExchange ''kraken'' (Fin 10000) (Fin 10000) None] (Fin 0.5) ''BTC''
     = (Fin 5000, Some [''kraken''], None)
   \<and> (\<exists>m. flt f0 m \<and>
         max_bid [MockExchange ''coinbase'' (Fin 9900) (Fin 9900) None,
                  MockExchange ''kraken'' (Fin 10000) (Fin 10000) None] ''BTC'' m \<and>
         Fin 5000 = fmul (Fin 0.5) m)"
proof -
  let ?z = "[MockExchange ''coinbase'' (Fin 0) (Fin 0) (Some ''coinbase error''),
             MockExchange ''kraken'' (Fin 9900) (Fin 0) None]"
  let ?c = "[MockExchange ''coinbase'' (Fin 9900) (Fin 9900) None,
             MockExchange ''kraken'' (Fin 10000) (Fin 10000) None]"
  have hz: "\<forall>e\<in>set ?z. \<not> succeeded e ''BTC'' \<or> feq (bid_of e ''BTC'') f0"
    by (simp add: mock_simps feq_def)
  have hc: "Sell ?c (Fin 0.5) ''BTC'' = (Fin 5000, Some [''kraken''], None)"
    by (simp add: Sell_def mock_simps feq_def fgt_def)
  from sell_zero_bid_never_wins[of ?z "''BTC''" "Fin 1"] hz
  have "Sell ?z (Fin 1) ''BTC'' = (Fin 0, None, Some ''failed to find best price for BTC'')"
    by simp
  moreover from sell_zero_bid_never_wins[of ?c "''BTC''" "Fin 0.5" "Fin 5000" "[''kraken'']"] hc
  have "\<exists>m. flt f0 m \<and> max_bid ?c ''BTC'' m \<and> Fin 5000 = fmul (Fin 0.5) m"
    by blast
  ultimately show ?thesis using hc by blast
qed

text \<open>
  C6. The claim asks for a failure whenever an adapter cannot determine both prices. The
  Kraken adapter does not give one when the decoded response has no error text and an empty
  \<open>result\<close> mapping: the loop over the mapping runs zero times and the call returns the
  initial \<open>ask\<close> and \<open>bid\<close>, both \<open>0\<close>, with a \<open>nil\<close> error.
\<close>
theorem kraken_empty_result_succeeds:
  "KrakenExchange_GetPrices pf (Decoded \<lparr>Error = [], Result = []\<rparr>)
   = Returns (Fin 0, Fin 0, None)"
  by (simp add: KrakenExchange_GetPrices_def)

text \<open>
  C7, as amended. A handler rejects the request with status 400, whatever the exchanges
  are, when the amount it reads is equal to \<open>0\<close>; fiber reads an amount text that does not
  parse (a missing one included) as the default \<open>0\<close>, so such a request is rejected too.
  In every other case the handler calls \<open>Buy\<close> (or \<open>Sell\<close>) with the amount read, which is
  not equal to \<open>0\<close>, and with the symbol text as the request gives it, and answers with the
  response built from the result. So the order service is never called with an amount equal
  to \<open>0\<close>; negative amounts and an empty symbol do reach it.
\<close>
theorem handlers_reject_zero_amount_only:
  "(feq (QueryFloat c ''amount'' (Fin 0)) (Fin 0) \<longrightarrow>
      BuyHandler exs c = (400, [(''error'', AString ''invalid amount'')]) \<and>
      SellHandler exs c = (400, [(''error'', AString ''invalid amount'')]))
   \<and> (\<not> feq (QueryFloat c ''amount'' (Fin 0)) (Fin 0) \<longrightarrow>
      BuyHandler exs c =
        order_response (Query c ''symbol'') (QueryFloat c ''amount'' (Fin 0))
          (Buy exs (QueryFloat c ''amount'' (Fin 0)) (Query c ''symbol'')) \<and>
      SellHandler exs c =
        order_response (Query c ''symbol'') (QueryFloat c ''amount'' (Fin 0))
          (Sell exs (QueryFloat c ''amount'' (Fin 0)) (Query c ''symbol'')))
   \<and> (snd (pf (query_text args ''amount'')) \<noteq> None \<longrightarrow>
      feq (QueryFloat (fiber_Ctx pf args) ''amount'' (Fin 0)) (Fin 0))"
  by (simp add: BuyHandler_cases SellHandler_cases invalid_amount_def fiber_amount_zero_iff)

text \<open>
  The requests of the repository's tests: the amount text \<open>junk\<close>, the amount \<open>0\<close>, and the amount \<open>0.5\<close>.
\<close>

theorem handlers_reject_zero_amount_only_witness:
  "BuyHandler [MockExchange ''coinbase'' (Fin 10000) (Fin 9900) None,
               MockExchange ''kraken'' (Fin 9900) (Fin 10000) None]
     (fiber_Ctx parse_sample [''amount'' \<mapsto> ''junk'', ''symbol'' \<mapsto> ''BTC''])
     = (400, [(''error'', AString ''invalid amount'')])
   \<and> SellHandler [MockExchange ''coinbase'' (Fin 10000) (Fin 9900) None,
               MockExchange ''kraken'' (Fin 9900) (Fin 10000) None]
     (fiber_Ctx parse_sample [''amount'' \<mapsto> ''0'', ''symbol'' \<mapsto> ''BTC''])
     = (400, [(''error'', AString ''invalid amount'')])
   \<and> BuyHandler [MockExchange ''coinbase'' (Fin 10000) (Fin 9900) None,
               MockExchange ''kraken'' (Fin 9900) (Fin 10000) None]
     (fiber_Ctx parse_sample [''amount'' \<mapsto> ''0.5'', ''symbol'' \<mapsto> ''BTC''])
     = (200, [(''coin'', AString ''BTC''),
              (''amount'', ANumber (Fin 0.5)),
              (''usdAmount'', ANumber (Fin 4950)),
              (''exchange'', AArray [AString ''kraken''])])
   \<and> SellHandler [MockExchange ''coinbase'' (Fin 10000) (Fin 9900) None,
               MockExchange ''kraken'' (Fin 9900) (Fin 10000) None]
     (fiber_Ctx parse_sample [''amount'' \<mapsto> ''0.5'', ''symbol'' \<mapsto> ''BTC''])
     = (200, [(''coin'', AString ''BTC''),
              (''amount'', ANumber (Fin 0.5)),
              (''usdAmount'', ANumber (Fin 5000)),
              (''exchange'', AArray [AString ''kraken''])])"
proof -
  let ?exs = "[MockExchange ''coinbase'' (Fin 10000) (Fin 9900) None,
               MockExchange ''kraken'' (Fin 9900) (Fin 10000) None]"
  let ?junk = "[''amount'' \<mapsto> ''junk'', ''symbol'' \<mapsto> ''BTC'']"
  let ?zero = "[''amount'' \<mapsto> ''0'', ''symbol'' \<mapsto> ''BTC'']"
  let ?half = "[''amount'' \<mapsto> ''0.5'', ''symbol'' \<mapsto> ''BTC'']"
  have j: "snd (parse_sample (query_text ?junk ''amount'')) \<noteq> None"
    by (simp add: query_text_def parse_sample_def)
  have z: "feq (QueryFloat (fiber_Ctx parse_sample ?zero) ''amount'' (Fin 0)) (Fin 0)"
    by (simp add: fiber_Ctx_def query_text_def parse_sample_def feq_def)
  have h: "\<not> feq (QueryFloat (fiber_Ctx parse_sample ?half) ''amount'' (Fin 0)) (Fin 0)"
    by (simp add: fiber_Ctx_def query_text_def parse_sample_def feq_def)
  have q: "QueryFloat (fiber_Ctx parse_sample ?half) ''amount'' (Fin 0) = Fin 0.5"
    "Query (fiber_Ctx parse_sample ?half) ''symbol'' = ''BTC''"
    by (simp_all add: fiber_Ctx_def query_text_def parse_sample_def)
  have b: "Buy ?exs (Fin 0.5) ''BTC'' = (Fin 4950, Some [''kraken''], None)"
    by (simp add: Buy_def mock_simps feq_def)
  have s: "Sell ?exs (Fin 0.5) ''BTC'' = (Fin 5000, Some [''kraken''], None)"
    by (simp add: Sell_def mock_simps feq_def fgt_def)
  from handlers_reject_zero_amount_only[of "fiber_Ctx parse_sample ?junk" ?exs parse_sample ?junk] j
  have 1: "BuyHandler ?exs (fiber_Ctx parse_sample ?junk) = (400, [(''error'', AString ''invalid amount'')])"
    by blast
  from handlers_reject_zero_amount_only[of "fiber_Ctx parse_sample ?zero" ?exs parse_sample ?zero] z
  have 2: "SellHandler ?exs (fiber_Ctx parse_sample ?zero) = (400, [(''error'', AString ''invalid amount'')])"
    by blast
  from handlers_reject_zero_amount_only[of "fiber_Ctx parse_sample ?half" ?exs parse_sample ?half] h
  have 3: "BuyHandler ?exs (fiber_Ctx parse_sample ?half) =
      order_response ''BTC'' (Fin 0.5) (Buy ?exs (Fin 0.5) ''BTC'')"
    and 4: "SellHandler ?exs (fiber_Ctx parse_sample ?half) =
      order_response ''BTC'' (Fin 0.5) (Sell ?exs (Fin 0.5) ''BTC'')"
    unfolding q by blast+
  show ?thesis
    unfolding 1 2 3 4 b s by (simp add: order_response_def exchanges_value_def)
qed

text \<open>
  The claim as first stated fails: the request \<open>/buy?amount=-1\<close>, with no symbol, is not
  rejected. \<open>Buy\<close> is called with the amount \<open>-1\<close> and the empty symbol, and the answer has
  status 200.
\<close>

theorem negative_amount_reaches_buy_counterexample:
  "BuyHandler [MockExchange ''coinbase'' (Fin 9900) (Fin 9900) None]
     (fiber_Ctx parse_sample [''amount'' \<mapsto> ''-1''])
   = (200, [(''coin'', AString ''''),
            (''amount'', ANumber (Fin (- 1))),
            (''usdAmount'', ANumber (Fin (- 9900))),
            (''exchange'', AArray [AString ''coinbase''])])"
  by (simp add: BuyHandler_def fiber_Ctx_def query_text_def parse_sample_def Buy_def
      MockExchange_def feq_def f1e18_def exchanges_value_def)

text \<open>
  C9. Let \<open>(v, err)\<close> be what \<open>strconv.ParseFloat\<close> returns on the text of the \<open>amount\<close>
  parameter (the empty text when the parameter is missing). Both handlers answer with status
  400 and the body \<open>{"error":"invalid amount"}\<close> exactly when the parse failed or \<open>v\<close>
  equals \<open>0\<close>; a missing parameter is such a case, the empty text not being a number. For
  every other value, negative ones included, the handler answers with the response built
  from \<open>Buy\<close> (or \<open>Sell\<close>) called with \<open>v\<close> itself and the symbol text as given. Whether a
  request is rejected does not depend on the \<open>symbol\<close> parameter.
\<close>
theorem handlers_reject_exactly:
  assumes "pf (query_text args ''amount'') = (v, err)"
  shows "((BuyHandler exs (fiber_Ctx pf args) = (400, [(''error'', AString ''invalid amount'')]))
            = (err \<noteq> None \<or> feq v (Fin 0)))
       \<and> ((SellHandler exs (fiber_Ctx pf args) = (400, [(''error'', AString ''invalid amount'')]))
            = (err \<noteq> None \<or> feq v (Fin 0)))
       \<and> (args ''amount'' = None \<and> snd (pf []) \<noteq> None \<longrightarrow>
            BuyHandler exs (fiber_Ctx pf args) = (400, [(''error'', AString ''invalid amount'')]) \<and>
            SellHandler exs (fiber_Ctx pf args) = (400, [(''error'', AString ''invalid amount'')]))
       \<and> (err = None \<and> \<not> feq v (Fin 0) \<longrightarrow>
            BuyHandler exs (fiber_Ctx pf args) =
              order_response (query_text args ''symbol'') v
                (Buy exs v (query_text args ''symbol'')) \<and>
            SellHandler exs (fiber_Ctx pf args) =
              order_response (query_text args ''symbol'') v
                (Sell exs v (query_text args ''symbol'')))
       \<and> ((BuyHandler exs (fiber_Ctx pf (args(''symbol'' := s)))
              = (400, [(''error'', AString ''invalid amount'')]))
            = (BuyHandler exs (fiber_Ctx pf args) = (400, [(''error'', AString ''invalid amount'')])))
       \<and> ((SellHandler exs (fiber_Ctx pf (args(''symbol'' := s)))
              = (400, [(''error'', AString ''invalid amount'')]))
            = (SellHandler exs (fiber_Ctx pf args) = (400, [(''error'', AString ''invalid amount'')])))"
proof -
  have z: "feq (QueryFloat (fiber_Ctx pf args) ''amount'' (Fin 0)) (Fin 0) =
      (err \<noteq> None \<or> feq v (Fin 0))"
    using assms by (simp add: fiber_amount_zero_iff)
  have q: "QueryFloat (fiber_Ctx pf args) ''amount'' (Fin 0) = (if err = None then v else Fin 0)"
    using assms by (simp add: fiber_QueryFloat)
  have t: "query_text (args(''symbol'' := s)) ''amount'' = query_text args ''amount''"
    by (simp add: query_text_def)
  have z': "feq (QueryFloat (fiber_Ctx pf (args(''symbol'' := s))) ''amount'' (Fin 0)) (Fin 0) =
      (err \<noteq> None \<or> feq v (Fin 0))"
    using assms by (simp add: fiber_amount_zero_iff t)
  have inv: "invalid_amount = (400, [(''error'', AString ''invalid amount'')])"
    by (simp add: invalid_amount_def)
  have b: "(BuyHandler exs c = invalid_amount) = feq (QueryFloat c ''amount'' (Fin 0)) (Fin 0)"
    for c by (simp add: BuyHandler_cases order_response_not_invalid)
  have sl: "(SellHandler exs c = invalid_amount) = feq (QueryFloat c ''amount'' (Fin 0)) (Fin 0)"
    for c by (simp add: SellHandler_cases order_response_not_invalid)
  have miss: "args ''amount'' = None \<Longrightarrow> snd (pf []) \<noteq> None \<Longrightarrow> err \<noteq> None"
    using assms by (auto simp: query_text_def)
  have pass: "err = None \<Longrightarrow> \<not> feq v (Fin 0) \<Longrightarrow>
      BuyHandler exs (fiber_Ctx pf args) =
              order_response (query_text args ''symbol'') v
                (Buy exs v (query_text args ''symbol'')) \<and>
      SellHandler exs (fiber_Ctx pf args) =
              order_response (query_text args ''symbol'') v
                (Sell exs v (query_text args ''symbol''))"
    by (simp add: BuyHandler_cases SellHandler_cases q fiber_Query)
  show ?thesis
    using b[of "fiber_Ctx pf args"] sl[of "fiber_Ctx pf args"]
      b[of "fiber_Ctx pf (args(''symbol'' := s))"] sl[of "fiber_Ctx pf (args(''symbol'' := s))"]
      z z' miss pass
    unfolding inv by blast
qed

text \<open>
  A request with no amount parameter, and the request with the amount \<open>-1\<close>.
\<close>

theorem handlers_reject_exactly_witness:
  "BuyHandler [MockExchange ''coinbase'' (Fin 10000) (Fin 9900) None,
               MockExchange ''kraken'' (Fin 9900) (Fin 10000) None]
     (fiber_Ctx parse_sample [''symbol'' \<mapsto> ''BTC''])
     = (400, [(''error'', AString ''invalid amount'')])
   \<and> SellHandler [MockExchange ''coinbase'' (Fin 10000) (Fin 9900) None,
               MockExchange ''kraken'' (Fin 9900) (Fin 10000) None]
     (fiber_Ctx parse_sample [''symbol'' \<mapsto> ''BTC''])
     = (400, [(''error'', AString ''invalid amount'')])
   \<and> BuyHandler [MockExchange ''coinbase'' (Fin 10000) (Fin 9900) None,
               MockExchange ''kraken'' (Fin 9900) (Fin 10000) None]
     (fiber_Ctx parse_sample [''amount'' \<mapsto> ''-1'', ''symbol'' \<mapsto> ''BTC''])
     = (200, [(''coin'', AString ''BTC''),
              (''amount'', ANumber (Fin (- 1))),
              (''usdAmount'', ANumber (Fin (- 9900))),
              (''exchange'', AArray [AString ''kraken''])])
   \<and> SellHandler [MockExchange ''coinbase'' (Fin 10000) (Fin 9900) None,
               MockExchange ''kraken'' (Fin 9900) (Fin 10000) None]
     (fiber_Ctx parse_sample [''amount'' \<mapsto> ''-1'', ''symbol'' \<mapsto> ''BTC''])
     = (200, [(''coin'', AString ''BTC''),
              (''amount'', ANumber (Fin (- 1))),
              (''usdAmount'', ANumber (Fin (- 10000))),
              (''exchange'', AArray [AString ''kraken''])])"
proof -
  let ?exs = "[MockExchange ''coinbase'' (Fin 10000) (Fin 9900) None,
               MockExchange ''kraken'' (Fin 9900) (Fin 10000) None]"
  let ?none = "[''symbol'' \<mapsto> ''BTC'']"
  let ?neg = "[''amount'' \<mapsto> ''-1'', ''symbol'' \<mapsto> ''BTC'']"
  have pn: "parse_sample (query_text ?none ''amount'') = (Fin 0, Some ''invalid syntax'')"
    by (simp add: query_text_def parse_sample_def)
  have pm: "parse_sample (query_text ?neg ''amount'') = (Fin (- 1), None)"
    by (simp add: query_text_def parse_sample_def)
  have miss: "?none ''amount'' = None \<and> snd (parse_sample []) \<noteq> None"
    by (simp add: parse_sample_def)
  have nz: "\<not> feq (Fin (- 1)) (Fin 0)" by (simp add: feq_def)
  have sym: "query_text ?neg ''symbol'' = ''BTC''" by (simp add: query_text_def)
  have b: "Buy ?exs (Fin (- 1)) ''BTC'' = (Fin (- 9900), Some [''kraken''], None)"
    by (simp add: Buy_def mock_simps feq_def)
  have s: "Sell ?exs (Fin (- 1)) ''BTC'' = (Fin (- 10000), Some [''kraken''], None)"
    by (simp add: Sell_def mock_simps feq_def fgt_def)
  from handlers_reject_exactly[where pf = parse_sample and args = ?none and exs = ?exs, OF pn] miss
  have 1: "BuyHandler ?exs (fiber_Ctx parse_sample ?none) = (400, [(''error'', AString ''invalid amount'')])"
    and 2: "SellHandler ?exs (fiber_Ctx parse_sample ?none) = (400, [(''error'', AString ''invalid amount'')])"
    by blast+
  from handlers_reject_exactly[where pf = parse_sample and args = ?neg and exs = ?exs, OF pm] nz
  have 3: "BuyHandler ?exs (fiber_Ctx parse_sample ?neg) =
      order_response ''BTC'' (Fin (- 1)) (Buy ?exs (Fin (- 1)) ''BTC'')"
    and 4: "SellHandler ?exs (fiber_Ctx parse_sample ?neg) =
      order_response ''BTC'' (Fin (- 1)) (Sell ?exs (Fin (- 1)) ''BTC'')"
    unfolding sym by blast+
  show ?thesis
    unfolding 1 2 3 4 b s by (simp add: order_response_def exchanges_value_def)
qed

end
